theory Spec2Isabelle
  imports Main "HOL-Library.Multiset"
begin

section \<open>Strings\<close>

text \<open>
  JavaScript strings are modelled as \<open>string\<close> (lists of 8-bit characters); on ASCII text
  the two agree.  The white space removed by \<open>String.prototype.trim\<close> is modelled by its
  ASCII members (TAB, LF, VT, FF, CR, SPACE).
\<close>

abbreviation LF :: char where "LF \<equiv> CHR 0x0A"
abbreviation CR :: char where "CR \<equiv> CHR 0x0D"

definition isSpace :: "char \<Rightarrow> bool" where
  "isSpace c = (c \<in> set [CHR 0x09, CHR 0x0A, CHR 0x0B, CHR 0x0C, CHR 0x0D, CHR 0x20])"

definition trim :: "string \<Rightarrow> string" where
  "trim s = rev (dropWhile isSpace (rev (dropWhile isSpace s)))"

definition startsWith :: "string \<Rightarrow> string \<Rightarrow> bool" where
  "startsWith s p = (take (length p) s = p)"

definition endsWith :: "string \<Rightarrow> string \<Rightarrow> bool" where
  "endsWith s p = (length p \<le> length s \<and> drop (length s - length p) s = p)"

fun includesStr :: "string \<Rightarrow> string \<Rightarrow> bool" where
  "includesStr [] p = (p = [])"
| "includesStr (c # cs) p = (startsWith (c # cs) p \<or> includesStr cs p)"

text \<open>\<open>sql.split(/\r?\n/)\<close>: a line ends at LF or at CR LF; a lone CR stays in its line.\<close>

fun splitLines :: "string \<Rightarrow> string list" where
  "splitLines [] = [[]]"
| "splitLines [c] = (if c = LF then [[], []] else [[c]])"
| "splitLines (c # d # cs) =
     (if c = LF then [] # splitLines (d # cs)
      else if c = CR \<and> d = LF then [] # splitLines cs
      else (case splitLines (d # cs) of
              [] \<Rightarrow> [[c]]
            | l # ls \<Rightarrow> (c # l) # ls))"

definition isDigit :: "char \<Rightarrow> bool" where
  "isDigit c = (c \<in> set ''0123456789'')"

section \<open>The declarative-format parser (src/utils/sql_parser.ts)\<close>

datatype section_kind = SecNone | SecUp | SecDown

text \<open>The local variables of \<open>parseSqlMigration\<close>.\<close>

record parser_state =
  cur_section :: section_kind
  inStatement :: bool
  currentStatement :: string
  upStatements :: "string list"
  downStatements :: "string list"

definition initialState :: parser_state where
  "initialState = \<lparr>cur_section = SecNone, inStatement = False, currentStatement = [],
     upStatements = [], downStatements = []\<rparr>"

text \<open>
  One iteration of the \<open>for (const line of lines)\<close> loop; every \<open>continue\<close> is a branch
  that returns the state.  The tests are in the order of the source: section markers,
  then the comment and blank-line skip, then the statement markers, then the line itself.
\<close>

definition processLine :: "parser_state \<Rightarrow> string \<Rightarrow> parser_state" where
  "processLine st line =
     (let trimmedLine = trim line in
      if trimmedLine = ''-- +goose Up'' then st\<lparr>cur_section := SecUp\<rparr>
      else if trimmedLine = ''-- +goose Down'' then st\<lparr>cur_section := SecDown\<rparr>
      else if \<not> inStatement st \<and> (trimmedLine = [] \<or> startsWith trimmedLine ''--'') then st
      else if trimmedLine = ''-- +goose StatementBegin''
        then st\<lparr>inStatement := True, currentStatement := []\<rparr>
      else if trimmedLine = ''-- +goose StatementEnd''
        then (if cur_section st = SecUp
                then st\<lparr>inStatement := False,
                        upStatements := upStatements st @ [currentStatement st]\<rparr>
              else if cur_section st = SecDown
                then st\<lparr>inStatement := False,
                        downStatements := downStatements st @ [currentStatement st]\<rparr>
              else st\<lparr>inStatement := False\<rparr>)
      else if inStatement st
        then st\<lparr>currentStatement := currentStatement st @ line @ [LF]\<rparr>
      else if cur_section st \<noteq> SecNone \<and> trimmedLine \<noteq> [] \<and> \<not> startsWith trimmedLine ''--''
        then (if endsWith trimmedLine '';''
                then (if cur_section st = SecUp
                        then st\<lparr>currentStatement := [],
                                upStatements := upStatements st @ [currentStatement st @ line @ [LF]]\<rparr>
                      else st\<lparr>currentStatement := [],
                              downStatements := downStatements st @ [currentStatement st @ line @ [LF]]\<rparr>)
              else st\<lparr>currentStatement := currentStatement st @ line @ [LF]\<rparr>)
      else st)"

definition processLines :: "parser_state \<Rightarrow> string list \<Rightarrow> parser_state" where
  "processLines st ls = foldl processLine st ls"

text \<open>The state of the parser when the loop over the lines of \<open>sql\<close> is over.\<close>

definition parseSqlLines :: "string \<Rightarrow> parser_state" where
  "parseSqlLines sql = processLines initialState (splitLines sql)"

section \<open>Errors, actions and migration modules (src/core/migrate.ts)\<close>

datatype error =
  TypeError string
| Error string
| SyntaxError string
| IOError string
| DbError string

text \<open>
  An up or down procedure runs against the tables of the user, of type \<open>'s\<close>.  It returns
  the store it leaves behind and, when it throws, the error: a procedure that throws may
  have changed the store before.  Procedures are taken not to touch the ledger table.
\<close>

type_synonym 's action = "'s \<Rightarrow> error option \<times> 's"

record 's MigrationModule =
  up :: "'s action"
  down :: "'s action option"
  noTransaction :: bool
  irreversible :: bool

text \<open>
  \<open>for (const statement of statements) await db.raw(statement)\<close>: the statements run in
  order and the first one that throws ends the loop.  \<open>raw\<close>, the execution of one SQL
  statement by the database, is a parameter of the model.
\<close>

fun runStatements :: "(string \<Rightarrow> 's action) \<Rightarrow> string list \<Rightarrow> 's action" where
  "runStatements raw [] st = (None, st)"
| "runStatements raw (statement # rest) st =
     (case raw statement st of
        (Some e, st') \<Rightarrow> (Some e, st')
      | (None, st') \<Rightarrow> runStatements raw rest st')"

text \<open>The object that \<open>parseSqlMigration\<close> returns.\<close>

definition parseSqlMigration :: "(string \<Rightarrow> 's action) \<Rightarrow> string \<Rightarrow> 's MigrationModule" where
  "parseSqlMigration raw sql =
     (let st = parseSqlLines sql in
      \<lparr>up = runStatements raw (upStatements st),
       down = (if length (downStatements st) > 0
               then Some (runStatements raw (downStatements st)) else None),
       noTransaction = includesStr sql ''-- +goose NO TRANSACTION'',
       irreversible = includesStr sql ''-- +goose IRREVERSIBLE''\<rparr>)"

section \<open>Versions (src/utils/common.ts)\<close>

text \<open>The regular expression \<open>/^(\d+)_/\<close>: the longest run of digits, then an underscore.\<close>

definition digitsPrefixed :: "string \<Rightarrow> bool" where
  "digitsPrefixed f =
     (takeWhile isDigit f \<noteq> [] \<and>
      (case dropWhile isDigit f of [] \<Rightarrow> False | c # _ \<Rightarrow> c = CHR ''_''))"

definition getVersionFromFilename :: "string \<Rightarrow> error + string" where
  "getVersionFromFilename f =
     (if digitsPrefixed f then Inr (takeWhile isDigit f)
      else Inl (Error (''Invalid migration filename: '' @ f)))"

text \<open>
  \<open>BigInt(s)\<close> on a string: white space is trimmed, the empty string is \<open>0n\<close>, a decimal
  numeral may carry a sign, a numeral with prefix \<open>0x\<close>, \<open>0o\<close> or \<open>0b\<close> may not, and
  anything else is a SyntaxError (\<open>None\<close>).
\<close>

definition digitValue :: "char \<Rightarrow> nat" where
  "digitValue c =
     (if c \<in> set ''ABCDEF'' then 10 + length (takeWhile (\<lambda>d. d \<noteq> c) ''ABCDEF'')
      else length (takeWhile (\<lambda>d. d \<noteq> c) ''0123456789abcdef''))"

definition numeral_in :: "nat \<Rightarrow> string \<Rightarrow> int option" where
  "numeral_in base ds =
     (if ds \<noteq> [] \<and> (\<forall>c \<in> set ds. digitValue c < base)
      then Some (foldl (\<lambda>n c. int base * n + int (digitValue c)) 0 ds) else None)"

definition BigInt :: "string \<Rightarrow> int option" where
  "BigInt s =
     (let t = trim s in
      if t = [] then Some 0
      else if startsWith t ''0x'' \<or> startsWith t ''0X'' then numeral_in 16 (drop 2 t)
      else if startsWith t ''0o'' \<or> startsWith t ''0O'' then numeral_in 8 (drop 2 t)
      else if startsWith t ''0b'' \<or> startsWith t ''0B'' then numeral_in 2 (drop 2 t)
      else if startsWith t ''-'' then map_option uminus (numeral_in 10 (drop 1 t))
      else if startsWith t ''+'' then numeral_in 10 (drop 1 t)
      else numeral_in 10 t)"

section \<open>The migration source: \<open>getMigrationFiles\<close>\<close>

text \<open>
  A directory is the list of its entries in the order \<open>fs.readdir\<close> returns them.  An
  entry has its name, the text \<open>fs.readFile\<close> returns (\<open>None\<close> when reading throws) and
  the exports a dynamic \<open>import\<close> returns (\<open>None\<close> when importing throws).
\<close>

datatype 's js_value = JsUndefined | JsFunction "'s action" | JsBoolean bool | JsOther

record 's js_exports =
  export_up :: "'s js_value"
  export_down :: "'s js_value"
  export_noTransaction :: "'s js_value"
  export_irreversible :: "'s js_value"

record 's dirent =
  file_name :: string
  file_text :: "string option"
  file_exports :: "'s js_exports option"

text \<open>\<open>MigrationFile\<close>, without \<open>filepath\<close> (the path is only used to read the entry).\<close>

record 's MigrationFile =
  version :: string
  filename :: string
  module :: "'s MigrationModule"

definition isUndefined :: "'s js_value \<Rightarrow> bool" where
  "isUndefined v = (case v of JsUndefined \<Rightarrow> True | _ \<Rightarrow> False)"

definition isFunction :: "'s js_value \<Rightarrow> bool" where
  "isFunction v = (case v of JsFunction _ \<Rightarrow> True | _ \<Rightarrow> False)"

definition isBoolean :: "'s js_value \<Rightarrow> bool" where
  "isBoolean v = (case v of JsBoolean _ \<Rightarrow> True | _ \<Rightarrow> False)"

text \<open>\<open>Boolean(v)\<close> for a value that is undefined or a boolean.\<close>

definition toBoolean :: "'s js_value \<Rightarrow> bool" where
  "toBoolean v = (case v of JsBoolean b \<Rightarrow> b | _ \<Rightarrow> False)"

text \<open>The \<open>try\<close> block of the loading loop: the module of one entry, or the error thrown.\<close>

definition loadModule :: "(string \<Rightarrow> 's action) \<Rightarrow> 's dirent \<Rightarrow> error + 's MigrationModule" where
  "loadModule raw d =
     (if endsWith (file_name d) ''.sql'' then
        (case file_text d of
           None \<Rightarrow> Inl (IOError (file_name d))
         | Some sqlContent \<Rightarrow> Inr (parseSqlMigration raw sqlContent))
      else
        (case file_exports d of
           None \<Rightarrow> Inl (Error (file_name d))
         | Some importedModule \<Rightarrow>
            (case export_up importedModule of
               JsFunction upFunction \<Rightarrow>
                 if \<not> isUndefined (export_down importedModule)
                    \<and> \<not> isFunction (export_down importedModule)
                 then Inl (TypeError (''Migration '' @ file_name d @ '' down export must be a function''))
                 else if \<not> isUndefined (export_noTransaction importedModule)
                    \<and> \<not> isBoolean (export_noTransaction importedModule)
                 then Inl (TypeError (''Migration '' @ file_name d @ '' noTransaction export must be a boolean''))
                 else if \<not> isUndefined (export_irreversible importedModule)
                    \<and> \<not> isBoolean (export_irreversible importedModule)
                 then Inl (TypeError (''Migration '' @ file_name d @ '' irreversible export must be a boolean''))
                 else Inr \<lparr>up = upFunction,
                           down = (case export_down importedModule of
                                     JsFunction downFunction \<Rightarrow> Some downFunction
                                   | _ \<Rightarrow> None),
                           noTransaction = toBoolean (export_noTransaction importedModule),
                           irreversible = toBoolean (export_irreversible importedModule)\<rparr>
             | _ \<Rightarrow> Inl (TypeError (''Migration '' @ file_name d @ '' must export up function'')))))"

text \<open>
  One iteration of the loading loop.  The error comes with the name of the file, which
  the \<open>catch\<close> block prints before it throws the error again.
\<close>

definition loadMigration ::
  "(string \<Rightarrow> 's action) \<Rightarrow> 's dirent \<Rightarrow> (string \<times> error) + 's MigrationFile" where
  "loadMigration raw d =
     (case getVersionFromFilename (file_name d) of
        Inl e \<Rightarrow> Inl (file_name d, e)
      | Inr v \<Rightarrow>
         (case loadModule raw d of
            Inl e \<Rightarrow> Inl (file_name d, e)
          | Inr m \<Rightarrow> Inr \<lparr>version = v, filename = file_name d, module = m\<rparr>))"

fun loadMigrations ::
  "(string \<Rightarrow> 's action) \<Rightarrow> 's dirent list \<Rightarrow> (string \<times> error) + 's MigrationFile list" where
  "loadMigrations raw [] = Inr []"
| "loadMigrations raw (d # ds) =
     (case loadMigration raw d of
        Inl e \<Rightarrow> Inl e
      | Inr m \<Rightarrow>
         (case loadMigrations raw ds of
            Inl e \<Rightarrow> Inl e
          | Inr ms \<Rightarrow> Inr (m # ms)))"

text \<open>The filter of \<open>getMigrationFiles\<close> on file names.\<close>

definition isMigrationFile :: "string \<Rightarrow> bool" where
  "isMigrationFile file =
     ((endsWith file ''.js'' \<or> endsWith file ''.sql'') \<and> digitsPrefixed file)"

text \<open>
  The number the comparator of the sort reads off a file name,
  \<open>BigInt(getVersionFromFilename(file))\<close>.  Names that reach the sort have passed the
  filter, so neither call throws there; the value 0 of the other branches is never used.
\<close>

definition fileVersionNumber :: "string \<Rightarrow> int" where
  "fileVersionNumber file =
     (case getVersionFromFilename file of
        Inl _ \<Rightarrow> 0
      | Inr v \<Rightarrow> (case BigInt v of None \<Rightarrow> 0 | Some n \<Rightarrow> n))"

text \<open>
  \<open>Array.prototype.sort\<close> is stable and the comparator \<open>Number(BigInt(a) - BigInt(b))\<close>
  has the sign of the difference: the sort is the stable sort by ascending number.
\<close>

definition getMigrationFiles ::
  "(string \<Rightarrow> 's action) \<Rightarrow> 's dirent list \<Rightarrow> (string \<times> error) + 's MigrationFile list" where
  "getMigrationFiles raw dir =
     loadMigrations raw
       (sort_key (\<lambda>d. fileVersionNumber (file_name d))
          (filter (\<lambda>d. isMigrationFile (file_name d)) dir))"

section \<open>The ledger table and the database (src/db/init.ts)\<close>

text \<open>\<open>MigrationRecord\<close>: a row of the ledger table.  \<open>rec_id\<close> is the column \<open>id\<close>.\<close>

record MigrationRecord =
  rec_id :: nat
  version_id :: string
  is_applied :: nat
  tstamp :: nat

text \<open>
  What a run prints with \<open>console.log\<close> and \<open>console.error\<close> outside verbose mode, and,
  as two ghost events, each call of an up or down procedure (with the name of its file).
\<close>

datatype event =
  CallUp string
| CallDown string
| LogErrorLoading string error
| LogApplying nat
| LogApplied string
| LogErrorApplying string error
| LogNoPending
| LogNoRollback
| LogRollingBack nat string
| LogFileNotFound string
| LogIrreversible string
| LogRolledBack string
| LogErrorRollingBack string error
| LogStatusHeader
| LogNoFiles
| LogStatus string bool "nat option"

text \<open>
  The database: the tables of the user, the rows of the ledger table, the next value of
  its auto-increment column, the time \<open>now()\<close> returns, and the events so far.
\<close>

record 's db =
  store :: 's
  rows :: "MigrationRecord list"
  nextId :: nat
  clock :: nat
  trace :: "event list"

definition logEvents :: "event list \<Rightarrow> 's db \<Rightarrow> 's db" where
  "logEvents es d = d\<lparr>trace := trace d @ es\<rparr>"

text \<open>
  The column \<open>version_id\<close> is declared \<open>bigint\<close> and \<open>unique\<close>, and its values are read
  back as strings (\<open>MigrationRecord.version_id\<close>).  \<open>bigintText v\<close> is the text the column
  gives back for the digits \<open>v\<close> written to it: the same number without leading zeros.
\<close>

definition bigintText :: "string \<Rightarrow> string" where
  "bigintText v = (case dropWhile (\<lambda>c. c = CHR ''0'') v of [] \<Rightarrow> ''0'' | r \<Rightarrow> r)"

text \<open>
  \<open>insert({ version_id: v, is_applied: 1 })\<close>, for the strings the engine writes: the
  digits in front of a file name, and 0 for the baseline.  The column turns the digits
  into a number, rejects a number above \<open>2^63 - 1\<close> and a number it already holds, and
  the new row reads back as the text of the number.  A string that is not made of digits
  is rejected.
\<close>

definition ledgerInsert :: "string \<Rightarrow> 's db \<Rightarrow> error option \<times> 's db" where
  "ledgerInsert v d =
     (case numeral_in 10 v of
        None \<Rightarrow> (Some (DbError (''invalid bigint '' @ v)), d)
      | Some n \<Rightarrow>
          if n > 9223372036854775807
          then (Some (DbError (''bigint out of range '' @ v)), d)
          else if \<exists>r \<in> set (rows d). version_id r = bigintText v
          then (Some (DbError (''duplicate version_id '' @ bigintText v)), d)
          else (None, d\<lparr>rows := rows d @ [\<lparr>rec_id = nextId d, version_id = bigintText v,
                                             is_applied = 1, tstamp = clock d\<rparr>],
                          nextId := Suc (nextId d)\<rparr>))"

text \<open>
  \<open>where("version_id", v).delete()\<close>.  The engine calls it with the version of a file
  that is, as a string, the \<open>version_id\<close> of a row; on such a version the comparison of
  the column and the comparison of strings select the same rows of a ledger the column
  has written.
\<close>

definition ledgerDelete :: "string \<Rightarrow> 's db \<Rightarrow> error option \<times> 's db" where
  "ledgerDelete v d = (None, d\<lparr>rows := filter (\<lambda>r. version_id r \<noteq> v) (rows d)\<rparr>)"

text \<open>
  \<open>db.transaction(body)\<close>: when the body throws, the tables are as before the transaction;
  what was printed stays printed.
\<close>

definition transaction :: "('s db \<Rightarrow> error option \<times> 's db) \<Rightarrow> 's db \<Rightarrow> error option \<times> 's db" where
  "transaction body d =
     (case body d of
        (Some e, d') \<Rightarrow> (Some e, d\<lparr>trace := trace d'\<rparr>)
      | (None, d') \<Rightarrow> (None, d'))"

text \<open>
  The second half of \<open>initializeDb\<close>.  \<open>tableExists\<close> is the answer of \<open>hasTable\<close>; creating
  the table gives an empty one.
\<close>

definition initializeDb :: "bool \<Rightarrow> 's db \<Rightarrow> 's db" where
  "initializeDb tableExists d =
     (if \<not> tableExists then
        (let created = d\<lparr>rows := [], nextId := 1\<rparr> in
         case find (\<lambda>r. version_id r = ''0'') (rows created) of
           None \<Rightarrow> snd (ledgerInsert ''0'' created)
         | Some _ \<Rightarrow> created)
      else d)"

text \<open>\<open>select("*").orderBy("id", "asc")\<close>.\<close>

definition getAppliedMigrations :: "'s db \<Rightarrow> MigrationRecord list" where
  "getAppliedMigrations d = sort_key rec_id (rows d)"

section \<open>Applying migrations\<close>

text \<open>The two statements both branches of \<open>applyMigrations\<close> run: the up procedure, then the insert.\<close>

definition runUp :: "'s MigrationFile \<Rightarrow> 's db \<Rightarrow> error option \<times> 's db" where
  "runUp migration d =
     (case up (module migration) (store d) of
        (Some e, st) \<Rightarrow> (Some e, logEvents [CallUp (filename migration)] (d\<lparr>store := st\<rparr>))
      | (None, st) \<Rightarrow>
          ledgerInsert (version migration)
            (logEvents [CallUp (filename migration)] (d\<lparr>store := st\<rparr>)))"

text \<open>The body of the loop of \<open>applyMigrations\<close>, with its \<open>try\<close> and \<open>catch\<close>.\<close>

definition applyMigration :: "'s MigrationFile \<Rightarrow> 's db \<Rightarrow> error option \<times> 's db" where
  "applyMigration migration d =
     (case (if noTransaction (module migration) then runUp migration d
            else transaction (runUp migration) d) of
        (None, d') \<Rightarrow> (None, logEvents [LogApplied (filename migration)] d')
      | (Some e, d') \<Rightarrow> (Some e, logEvents [LogErrorApplying (filename migration) e] d'))"

fun applyEach :: "'s MigrationFile list \<Rightarrow> 's db \<Rightarrow> error option \<times> 's db" where
  "applyEach [] d = (None, d)"
| "applyEach (migration # rest) d =
     (case applyMigration migration d of
        (Some e, d') \<Rightarrow> (Some e, d')
      | (None, d') \<Rightarrow> applyEach rest d')"

definition applyMigrations :: "'s MigrationFile list \<Rightarrow> 's db \<Rightarrow> error option \<times> 's db" where
  "applyMigrations migrations d =
     applyEach migrations (logEvents [LogApplying (length migrations)] d)"

text \<open>
  \<open>migrations.filter(m => !applied.some(a => a.version_id === m.version))\<close>: the
  comparison is \<open>===\<close> on two strings.
\<close>

definition pendingMigrations ::
  "'s MigrationFile list \<Rightarrow> MigrationRecord list \<Rightarrow> 's MigrationFile list" where
  "pendingMigrations migrations applied =
     filter (\<lambda>migration. \<not> (\<exists>a \<in> set applied. version_id a = version migration)) migrations"

text \<open>
  The restriction of \<open>upMigration\<close> to the versions up to \<open>version\<close>.  \<open>BigInt\<close> throws a
  SyntaxError on a string it cannot read.
\<close>

definition upToVersion ::
  "string option \<Rightarrow> 's MigrationFile list \<Rightarrow> error + 's MigrationFile list" where
  "upToVersion target pending =
     (case target of
        None \<Rightarrow> Inr pending
      | Some v \<Rightarrow>
          if length pending > 0 then
            (case BigInt v of
               None \<Rightarrow> Inl (SyntaxError v)
             | Some targetVersion \<Rightarrow>
                (case find (\<lambda>m. BigInt (version m) = None) pending of
                   Some m \<Rightarrow> Inl (SyntaxError (version m))
                 | None \<Rightarrow>
                     Inr (filter (\<lambda>m. case BigInt (version m) of
                                         None \<Rightarrow> False
                                       | Some n \<Rightarrow> n \<le> targetVersion) pending)))
          else Inr pending)"

definition upMigration ::
  "(string \<Rightarrow> 's action) \<Rightarrow> 's dirent list \<Rightarrow> string option \<Rightarrow> 's db \<Rightarrow> error option \<times> 's db" where
  "upMigration raw dir target d =
     (case getMigrationFiles raw dir of
        Inl (f, e) \<Rightarrow> (Some e, logEvents [LogErrorLoading f e] d)
      | Inr migrations \<Rightarrow>
         (case upToVersion target (pendingMigrations migrations (getAppliedMigrations d)) of
            Inl e \<Rightarrow> (Some e, d)
          | Inr pending \<Rightarrow>
              if length pending = 0 then (None, logEvents [LogNoPending] d)
              else applyMigrations pending d))"

definition upByOneMigration ::
  "(string \<Rightarrow> 's action) \<Rightarrow> 's dirent list \<Rightarrow> 's db \<Rightarrow> error option \<times> 's db" where
  "upByOneMigration raw dir d =
     (case getMigrationFiles raw dir of
        Inl (f, e) \<Rightarrow> (Some e, logEvents [LogErrorLoading f e] d)
      | Inr migrations \<Rightarrow>
         (case pendingMigrations migrations (getAppliedMigrations d) of
            [] \<Rightarrow> (None, logEvents [LogNoPending] d)
          | first # _ \<Rightarrow> applyMigrations [first] d))"

section \<open>Rolling back\<close>

text \<open>
  \<open>[...appliedMigrations].sort((a, b) => Number(BigInt(b.version_id) - BigInt(a.version_id)))\<close>:
  the stable sort by descending number.  The comparator throws on a version it cannot
  read; it is called on every row as soon as there are two rows.
\<close>

definition versionNumber :: "MigrationRecord \<Rightarrow> int" where
  "versionNumber a = (case BigInt (version_id a) of None \<Rightarrow> 0 | Some n \<Rightarrow> n)"

definition sortedAppliedMigrations :: "MigrationRecord list \<Rightarrow> error + MigrationRecord list" where
  "sortedAppliedMigrations applied =
     (if length applied \<ge> 2 \<and> (\<exists>a \<in> set applied. BigInt (version_id a) = None)
      then Inl (SyntaxError [])
      else Inr (sort_key (\<lambda>a. - versionNumber a) applied))"

text \<open>
  The rows to roll back, for a ledger that is not empty: the first row of the sorted
  ledger when no version is given, else the sorted rows with a greater version number.
\<close>

definition migrationsToRollback ::
  "MigrationRecord list \<Rightarrow> string option \<Rightarrow> error + MigrationRecord list" where
  "migrationsToRollback applied target =
     (case sortedAppliedMigrations applied of
        Inl e \<Rightarrow> Inl e
      | Inr sortedApplied \<Rightarrow>
         (case target of
            None \<Rightarrow> Inr (take 1 sortedApplied)
          | Some v \<Rightarrow>
             (case find (\<lambda>a. BigInt (version_id a) = None) sortedApplied of
                Some a \<Rightarrow> Inl (SyntaxError (version_id a))
              | None \<Rightarrow>
                 (case BigInt v of
                    None \<Rightarrow> (if sortedApplied = [] then Inr [] else Inl (SyntaxError v))
                  | Some targetVersion \<Rightarrow>
                      Inr (filter (\<lambda>a. versionNumber a > targetVersion) sortedApplied)))))"

text \<open>The two statements both branches of the rollback run: the down procedure if there is one, then the delete.\<close>

definition runDown :: "'s MigrationFile \<Rightarrow> 's db \<Rightarrow> error option \<times> 's db" where
  "runDown migration d =
     (case down (module migration) of
        None \<Rightarrow> ledgerDelete (version migration) d
      | Some downFunction \<Rightarrow>
         (case downFunction (store d) of
            (Some e, st) \<Rightarrow> (Some e, logEvents [CallDown (filename migration)] (d\<lparr>store := st\<rparr>))
          | (None, st) \<Rightarrow>
              ledgerDelete (version migration)
                (logEvents [CallDown (filename migration)] (d\<lparr>store := st\<rparr>))))"

text \<open>The \<open>try\<close> block of the rollback loop after the test for \<open>irreversible\<close>, and its \<open>catch\<close>.\<close>

definition rollbackMigration :: "'s MigrationFile \<Rightarrow> 's db \<Rightarrow> error option \<times> 's db" where
  "rollbackMigration migration d =
     (case (if noTransaction (module migration) then runDown migration d
            else transaction (runDown migration) d) of
        (None, d') \<Rightarrow> (None, logEvents [LogRolledBack (filename migration)] d')
      | (Some e, d') \<Rightarrow> (Some e, logEvents [LogErrorRollingBack (filename migration) e] d'))"

text \<open>
  The loop \<open>for (const appliedMigration of migrationsToRollback)\<close>: \<open>continue\<close> when no
  file has the version of the row, \<open>break\<close> at an irreversible migration.
\<close>

fun rollbackEach ::
  "'s MigrationFile list \<Rightarrow> MigrationRecord list \<Rightarrow> 's db \<Rightarrow> error option \<times> 's db" where
  "rollbackEach migrations [] d = (None, d)"
| "rollbackEach migrations (appliedMigration # rest) d =
     (case find (\<lambda>m. version m = version_id appliedMigration) migrations of
        None \<Rightarrow>
          rollbackEach migrations rest
            (logEvents [LogFileNotFound (version_id appliedMigration)] d)
      | Some migration \<Rightarrow>
          if irreversible (module migration)
          then (None, logEvents [LogIrreversible (filename migration)] d)
          else (case rollbackMigration migration d of
                  (Some e, d') \<Rightarrow> (Some e, d')
                | (None, d') \<Rightarrow> rollbackEach migrations rest d'))"

definition downToMigration ::
  "(string \<Rightarrow> 's action) \<Rightarrow> 's dirent list \<Rightarrow> string option \<Rightarrow> 's db \<Rightarrow> error option \<times> 's db" where
  "downToMigration raw dir target d =
     (case getMigrationFiles raw dir of
        Inl (f, e) \<Rightarrow> (Some e, logEvents [LogErrorLoading f e] d)
      | Inr migrations \<Rightarrow>
         (let appliedMigrations = getAppliedMigrations d in
          if length appliedMigrations = 0 then (None, logEvents [LogNoRollback] d)
          else
            (case migrationsToRollback appliedMigrations target of
               Inl e \<Rightarrow> (Some e, d)
             | Inr toRollback \<Rightarrow>
                 if length toRollback = 0 then (None, logEvents [LogNoRollback] d)
                 else rollbackEach migrations toRollback
                        (logEvents [LogRollingBack (length toRollback)
                                      (version_id (last toRollback))] d))))"

section \<open>Status\<close>

definition statusLine :: "MigrationRecord list \<Rightarrow> 's MigrationFile \<Rightarrow> event" where
  "statusLine applied migration =
     (case find (\<lambda>a. version_id a = version migration) applied of
        None \<Rightarrow> LogStatus (filename migration) False None
      | Some a \<Rightarrow> LogStatus (filename migration) True (Some (tstamp a)))"

definition statusMigration ::
  "(string \<Rightarrow> 's action) \<Rightarrow> 's dirent list \<Rightarrow> 's db \<Rightarrow> error option \<times> 's db" where
  "statusMigration raw dir d =
     (case getMigrationFiles raw dir of
        Inl (f, e) \<Rightarrow> (Some e, logEvents [LogErrorLoading f e] d)
      | Inr migrations \<Rightarrow>
          if length migrations = 0 then (None, logEvents [LogStatusHeader, LogNoFiles] d)
          else (None, logEvents (LogStatusHeader #
                  map (statusLine (getAppliedMigrations d)) migrations) d))"

section \<open>Auxiliary notions and example inputs\<close>

text \<open>The text of a file from its lines, each ended by a line feed.\<close>

definition unlines :: "string list \<Rightarrow> string" where
  "unlines ls = concat (map (\<lambda>l. l @ [LF]) ls)"

text \<open>A line that is neither blank nor a comment, and the text a run of lines adds to the accumulator.\<close>

definition isStatementLine :: "string \<Rightarrow> bool" where
  "isStatementLine l = (trim l \<noteq> [] \<and> \<not> startsWith (trim l) ''--'')"

definition statementText :: "string list \<Rightarrow> string" where
  "statementText ls = concat (map (\<lambda>l. l @ [LF]) (filter isStatementLine ls))"

text \<open>An Up section with one explicit block of two lines.\<close>

definition blockFile :: string where
  "blockFile = unlines [''-- +goose Up'', ''-- +goose StatementBegin'', ''SELECT 1;'',
     ''SELECT 2;'', ''-- +goose StatementEnd'']"

text \<open>An Up section whose statement has no semicolon, then a Down section.\<close>

definition carryOverFile :: string where
  "carryOverFile = unlines [''-- +goose Up'', ''CREATE TABLE t (id INT)'', ''-- +goose Down'',
     [], ''DROP TABLE t;'']"

text \<open>A store that records the statements it is asked to run.\<close>

definition recordStatement :: "string \<Rightarrow> string list action" where
  "recordStatement statement st = (None, st @ [statement])"

text \<open>A readable file that is not a module.\<close>

definition sqlFile :: "string \<Rightarrow> string \<Rightarrow> 's dirent" where
  "sqlFile f sql = \<lparr>file_name = f, file_text = Some sql, file_exports = None\<rparr>"

text \<open>An Up section that opens a block and never closes it.\<close>

definition unterminatedFile :: string where
  "unterminatedFile = unlines [''-- +goose Up'', ''-- +goose StatementBegin'', ''SELECT 1;'']"

text \<open>Two files with the same version.\<close>

definition duplicateDir :: "string list dirent list" where
  "duplicateDir = [sqlFile ''1_a.sql'' [], sqlFile ''1_b.sql'' []]"

text \<open>What loading gives for a readable SQL file.\<close>

definition sqlMigration :: "(string \<Rightarrow> 's action) \<Rightarrow> 's dirent \<Rightarrow> 's MigrationFile" where
  "sqlMigration raw d =
     \<lparr>version = takeWhile isDigit (file_name d), filename = file_name d,
      module = parseSqlMigration raw (case file_text d of None \<Rightarrow> [] | Some sql \<Rightarrow> sql)\<rparr>"

text \<open>The migration files of a directory in the order they are loaded.\<close>

definition sortedFiles :: "'s dirent list \<Rightarrow> 's dirent list" where
  "sortedFiles dir =
     sort_key (\<lambda>d. fileVersionNumber (file_name d))
       (filter (\<lambda>d. isMigrationFile (file_name d)) dir)"

text \<open>Files whose versions are the same number written in two ways, and a file that is not a migration.\<close>

definition mixedDir :: "string list dirent list" where
  "mixedDir = [sqlFile ''10_c.sql'' [], sqlFile ''2_b.sql'' [], sqlFile ''notes.txt'' [],
     sqlFile ''02_a.sql'' []]"

text \<open>A migration whose up procedure changes the store and then throws, outside a transaction.\<close>

definition failingMigration :: "string list MigrationFile" where
  "failingMigration =
     \<lparr>version = ''2'', filename = ''2_b.js'',
      module = \<lparr>up = (\<lambda>st. (Some (Error ''boom''), st @ [''partial''])), down = None,
                noTransaction = True, irreversible = False\<rparr>\<rparr>"

text \<open>A migration built from lists of statements, as the parser builds it.\<close>

definition statementsMigration ::
  "string \<Rightarrow> string \<Rightarrow> string list \<Rightarrow> string list \<Rightarrow> bool \<Rightarrow> string list MigrationFile" where
  "statementsMigration v f ups downs irr =
     \<lparr>version = v, filename = f,
      module = \<lparr>up = runStatements recordStatement ups,
                down = (if downs = [] then None else Some (runStatements recordStatement downs)),
                noTransaction = False, irreversible = irr\<rparr>\<rparr>"

text \<open>A database without the ledger table, and the same right after \<open>initializeDb\<close> has created it.\<close>

definition emptyDb :: "string list db" where
  "emptyDb = \<lparr>store = [], rows = [], nextId = 1, clock = 0, trace = []\<rparr>"

definition freshDb :: "string list db" where
  "freshDb = initializeDb False emptyDb"

text \<open>A directory of three SQL migrations with Up and Down sections.\<close>

definition threeDir :: "string list dirent list" where
  "threeDir =
     [sqlFile ''3_c.sql'' (unlines [''-- +goose Up'', ''C;'', ''-- +goose Down'', ''DC;'']),
      sqlFile ''1_a.sql'' (unlines [''-- +goose Up'', ''A;'', ''-- +goose Down'', ''DA;'']),
      sqlFile ''2_b.sql'' (unlines [''-- +goose Up'', ''B;'', ''-- +goose Down'', ''DB;''])]"

text \<open>The database after the first migration of a batch, and after all of \<open>threeDir\<close>.\<close>

definition afterFirst :: "string list db" where
  "afterFirst = snd (applyEach [statementsMigration ''1'' ''1_a.sql'' [''A;''] [''DA;''] False] freshDb)"

definition appliedDb :: "string list db" where
  "appliedDb = snd (upMigration recordStatement threeDir None freshDb)"

text \<open>The ledger has a row for version 0.\<close>

definition hasBaseline :: "'s db \<Rightarrow> bool" where
  "hasBaseline d = (\<exists>r \<in> set (rows d). version_id r = ''0'')"

definition ledgerRow :: "nat \<Rightarrow> string \<Rightarrow> MigrationRecord" where
  "ledgerRow i v = \<lparr>rec_id = i, version_id = v, is_applied = 1, tstamp = 0\<rparr>"

text \<open>Three migrations, the second one irreversible, and a database where all three are applied.\<close>

definition savePointMigrations :: "string list MigrationFile list" where
  "savePointMigrations =
     [statementsMigration ''1'' ''1_a.sql'' [''A;''] [''DA;''] False,
      statementsMigration ''2'' ''2_b.sql'' [''B;''] [''DB;''] True,
      statementsMigration ''3'' ''3_c.sql'' [''C;''] [''DC;''] False]"

definition threeApplied :: "string list db" where
  "threeApplied =
     \<lparr>store = [''A;'', ''B;'', ''C;''],
      rows = [ledgerRow 1 ''0'', ledgerRow 2 ''1'', ledgerRow 3 ''2'', ledgerRow 4 ''3''],
      nextId = 5, clock = 0, trace = []\<rparr>"

text \<open>A directory with a migration file of version 0.\<close>

definition zeroDir :: "string list dirent list" where
  "zeroDir = [sqlFile ''0_init.sql'' (unlines [''-- +goose Up'', ''X;'', ''-- +goose Down'', ''DX;''])]"

text \<open>A migration whose file name writes version 7 with a leading zero.\<close>

definition leadingZeroMigration :: "string list MigrationFile" where
  "leadingZeroMigration = statementsMigration ''07'' ''07_g.sql'' [''G;''] [''DG;''] False"

text \<open>
  The candidates of a rollback as the specification describes them: the rows by
  descending \<open>id\<close>, the first of them when no version is given, else those with a greater
  version number.
\<close>

definition candidatesBySequence :: "MigrationRecord list \<Rightarrow> string option \<Rightarrow> MigrationRecord list" where
  "candidatesBySequence applied target =
     (let recent = rev (sort_key rec_id applied) in
      case target of
        None \<Rightarrow> take 1 recent
      | Some v \<Rightarrow>
          (case BigInt v of
             None \<Rightarrow> []
           | Some targetVersion \<Rightarrow> filter (\<lambda>a. versionNumber a > targetVersion) recent))"

text \<open>A ledger where version 3 was applied before version 2.\<close>

definition outOfOrderLedger :: "MigrationRecord list" where
  "outOfOrderLedger = [ledgerRow 1 ''0'', ledgerRow 2 ''1'', ledgerRow 3 ''3'', ledgerRow 4 ''2'']"

definition outOfOrderDb :: "string list db" where
  "outOfOrderDb = \<lparr>store = [''A;'', ''C;'', ''B;''], rows = outOfOrderLedger,
     nextId = 5, clock = 0, trace = []\<rparr>"

text \<open>A version written with a zero in front of other digits.\<close>

definition leadingZero :: "string \<Rightarrow> bool" where
  "leadingZero v = (case v of c # _ # _ \<Rightarrow> c = CHR ''0'' | _ \<Rightarrow> False)"

text \<open>A directory whose only file writes version 7 as \<open>07\<close>, and the database after a first run on it.\<close>

definition leadingZeroDir :: "string list dirent list" where
  "leadingZeroDir =
     [sqlFile ''07_g.sql'' (unlines [''-- +goose Up'', ''G;'', ''-- +goose Down'', ''DG;''])]"

definition leadingZeroApplied :: "string list db" where
  "leadingZeroApplied = snd (upMigration recordStatement leadingZeroDir None freshDb)"

text \<open>A directory whose only file is a module with an up procedure that throws, and the database after a first run on it.\<close>

definition throwingDir :: "string list dirent list" where
  "throwingDir =
     [\<lparr>file_name = ''2_b.js'', file_text = None,
       file_exports = Some \<lparr>export_up = JsFunction (\<lambda>st. (Some (Error ''boom''), st @ [''partial''])),
                             export_down = JsUndefined, export_noTransaction = JsUndefined,
                             export_irreversible = JsUndefined\<rparr>\<rparr>]"

definition throwingFailed :: "string list db" where
  "throwingFailed = snd (upMigration recordStatement throwingDir None freshDb)"

section \<open>Properties of the parser\<close>

lemma processLines_Nil: "processLines st [] = st"
  by (simp add: processLines_def)

lemma processLines_Cons: "processLines st (x # xs) = processLines (processLine st x) xs"
  by (simp add: processLines_def)

lemma processLines_append:
  "processLines st (xs @ ys) = processLines (processLines st xs) ys"
  by (simp add: processLines_def)

text \<open>
  The comment test comes before the test for the statement markers, and both markers
  start with two dashes: outside a block a marker is skipped as a comment, so the parser
  never enters a block.
\<close>

lemma processLine_not_inStatement:
  "\<not> inStatement st \<Longrightarrow> \<not> inStatement (processLine st l)"
  by (auto simp: processLine_def Let_def startsWith_def)

lemma processLines_not_inStatement:
  "\<not> inStatement st \<Longrightarrow> \<not> inStatement (processLines st ls)"
  by (induction ls arbitrary: st)
     (auto simp: processLine_not_inStatement processLines_Nil processLines_Cons)

lemma processLine_Down:
  "trim l = ''-- +goose Down'' \<Longrightarrow> processLine st l = st\<lparr>cur_section := SecDown\<rparr>"
  by (simp add: processLine_def)

lemma processLine_skip:
  "\<not> inStatement st \<Longrightarrow> \<not> isStatementLine l \<Longrightarrow> trim l \<noteq> ''-- +goose Up''
    \<Longrightarrow> trim l \<noteq> ''-- +goose Down'' \<Longrightarrow> processLine st l = st"
  by (auto simp: processLine_def isStatementLine_def)

lemma processLine_accumulate:
  "\<not> inStatement st \<Longrightarrow> isStatementLine l \<Longrightarrow> cur_section st \<noteq> SecNone
    \<Longrightarrow> \<not> endsWith (trim l) '';''
    \<Longrightarrow> processLine st l = st\<lparr>currentStatement := currentStatement st @ l @ [LF]\<rparr>"
  by (auto simp: processLine_def isStatementLine_def Let_def startsWith_def)

lemma processLine_flush_down:
  "\<not> inStatement st \<Longrightarrow> isStatementLine l \<Longrightarrow> cur_section st = SecDown
    \<Longrightarrow> endsWith (trim l) '';''
    \<Longrightarrow> processLine st l = st\<lparr>currentStatement := [],
          downStatements := downStatements st @ [currentStatement st @ l @ [LF]]\<rparr>"
  by (auto simp: processLine_def isStatementLine_def Let_def startsWith_def)

text \<open>Lines that flush nothing and change no section only extend the accumulator.\<close>

lemma processLines_pending:
  assumes "\<not> inStatement st" "cur_section st \<noteq> SecNone"
    and "\<forall>x \<in> set mid. trim x \<noteq> ''-- +goose Up'' \<and> trim x \<noteq> ''-- +goose Down''
           \<and> (isStatementLine x \<longrightarrow> \<not> endsWith (trim x) '';'')"
  shows "processLines st mid = st\<lparr>currentStatement := currentStatement st @ statementText mid\<rparr>"
  using assms
proof (induction mid arbitrary: st)
  case Nil
  then show ?case by (simp add: processLines_Nil statementText_def)
next
  case (Cons x mid)
  show ?case
  proof (cases "isStatementLine x")
    case True
    with Cons.prems have step:
      "processLine st x = st\<lparr>currentStatement := currentStatement st @ x @ [LF]\<rparr>"
      by (simp add: processLine_accumulate)
    have "processLines (processLine st x) mid =
        (processLine st x)\<lparr>currentStatement :=
           currentStatement (processLine st x) @ statementText mid\<rparr>"
      using Cons.prems step by (intro Cons.IH) simp_all
    then show ?thesis
      using True step by (simp add: statementText_def processLines_Cons)
  next
    case False
    with Cons.prems have step: "processLine st x = st"
      by (simp add: processLine_skip)
    have "processLines (processLine st x) mid =
        st\<lparr>currentStatement := currentStatement st @ statementText mid\<rparr>"
      using Cons.prems step by (simp add: Cons.IH)
    then show ?thesis
      using False by (simp add: statementText_def processLines_Cons)
  qed
qed

lemma processLine_downStatements_grow:
  "\<exists>more. downStatements (processLine st l) = downStatements st @ more"
  by (simp add: processLine_def Let_def)

lemma processLines_downStatements_grow:
  "\<exists>more. downStatements (processLines st ls) = downStatements st @ more"
proof (induction ls arbitrary: st)
  case Nil
  then show ?case by (simp add: processLines_Nil)
next
  case (Cons l ls)
  obtain m1 where m1: "downStatements (processLine st l) = downStatements st @ m1"
    using processLine_downStatements_grow by blast
  obtain m2 where m2: "downStatements (processLines (processLine st l) ls) =
      downStatements (processLine st l) @ m2"
    using Cons.IH by blast
  from m1 m2 show ?case by (simp add: processLines_Cons)
qed

text \<open>
  C7.  The file with one \<open>StatementBegin\<close>/\<open>StatementEnd\<close> block holding the lines
  \<open>SELECT 1;\<close> and \<open>SELECT 2;\<close> in its Up section: the parser returns two up
  statements, one for each line, and not the single statement made of the whole block;
  the list of down statements is empty.
\<close>

theorem explicit_block_is_split_at_semicolons:
  "upStatements (parseSqlLines blockFile) = [''SELECT 1;'' @ [LF], ''SELECT 2;'' @ [LF]]
   \<and> upStatements (parseSqlLines blockFile) \<noteq> [''SELECT 1;'' @ [LF] @ ''SELECT 2;'' @ [LF]]
   \<and> downStatements (parseSqlLines blockFile) = []"
  by code_simp

text \<open>
  C9.  Text accumulated and not yet flushed when the line \<open>-- +goose Down\<close> is read is
  kept: the marker changes the section and nothing else, and the first statement that
  is flushed afterwards, into the list of down statements, starts with that text.
\<close>

theorem pending_text_carries_over_down_marker:
  assumes lines: "splitLines sql = pre @ marker # mid @ line # post"
    and marker: "trim marker = ''-- +goose Down''"
    and mid: "\<forall>x \<in> set mid. trim x \<noteq> ''-- +goose Up'' \<and> trim x \<noteq> ''-- +goose Down''
           \<and> (isStatementLine x \<longrightarrow> \<not> endsWith (trim x) '';'')"
    and line: "isStatementLine line" "endsWith (trim line) '';''"
  shows "processLines initialState (pre @ [marker]) =
           (processLines initialState pre)\<lparr>cur_section := SecDown\<rparr>
       \<and> (\<exists>more. downStatements (parseSqlLines sql) =
             downStatements (processLines initialState pre) @
             [currentStatement (processLines initialState pre) @ statementText mid @ line @ [LF]]
             @ more)"
proof -
  define st where "st = processLines initialState pre"
  have ni: "\<not> inStatement st"
    unfolding st_def by (rule processLines_not_inStatement) (simp add: initialState_def)
  have a: "processLines initialState (pre @ [marker]) = st\<lparr>cur_section := SecDown\<rparr>"
    unfolding st_def
    by (simp add: processLines_append processLines_Cons processLines_Nil processLine_Down marker)
  have b: "processLines (st\<lparr>cur_section := SecDown\<rparr>) mid =
      st\<lparr>cur_section := SecDown, currentStatement := currentStatement st @ statementText mid\<rparr>"
    using processLines_pending [of "st\<lparr>cur_section := SecDown\<rparr>" mid] ni mid by simp
  have c: "processLines initialState (pre @ marker # mid @ [line]) =
      st\<lparr>cur_section := SecDown, currentStatement := [],
         downStatements := downStatements st @
           [currentStatement st @ statementText mid @ line @ [LF]]\<rparr>"
  proof -
    have "processLines initialState (pre @ marker # mid @ [line]) =
        processLines (processLines (processLines initialState (pre @ [marker])) mid) [line]"
      by (simp add: processLines_append processLines_Cons processLines_Nil)
    also have "\<dots> = processLine (st\<lparr>cur_section := SecDown,
        currentStatement := currentStatement st @ statementText mid\<rparr>) line"
      by (simp add: a b processLines_Cons processLines_Nil)
    also have "\<dots> = st\<lparr>cur_section := SecDown, currentStatement := [],
         downStatements := downStatements st @
           [currentStatement st @ statementText mid @ line @ [LF]]\<rparr>"
      using ni line by (simp add: processLine_flush_down)
    finally show ?thesis .
  qed
  have "parseSqlLines sql =
      processLines (processLines initialState (pre @ marker # mid @ [line])) post"
    by (simp add: parseSqlLines_def lines processLines_append processLines_Cons processLines_Nil)
  moreover obtain more where
    "downStatements (processLines (processLines initialState (pre @ marker # mid @ [line])) post)
      = downStatements (processLines initialState (pre @ marker # mid @ [line])) @ more"
    using processLines_downStatements_grow by blast
  ultimately have "downStatements (parseSqlLines sql) =
      downStatements st @ [currentStatement st @ statementText mid @ line @ [LF]] @ more"
    by (simp add: c)
  with a show ?thesis unfolding st_def by blast
qed

theorem pending_text_carries_over_down_marker_witness:
  "splitLines carryOverFile =
     [''-- +goose Up'', ''CREATE TABLE t (id INT)''] @ ''-- +goose Down'' # [[]]
       @ ''DROP TABLE t;'' # [[]]
   \<and> trim ''-- +goose Down'' = ''-- +goose Down''
   \<and> isStatementLine ''DROP TABLE t;'' \<and> endsWith (trim ''DROP TABLE t;'') '';''
   \<and> currentStatement (processLines initialState [''-- +goose Up'', ''CREATE TABLE t (id INT)''])
       = ''CREATE TABLE t (id INT)'' @ [LF]
   \<and> downStatements (parseSqlLines carryOverFile) =
       [''CREATE TABLE t (id INT)'' @ [LF] @ ''DROP TABLE t;'' @ [LF]]"
proof -
  have l: "splitLines carryOverFile =
     [''-- +goose Up'', ''CREATE TABLE t (id INT)''] @ ''-- +goose Down'' # [[]]
       @ ''DROP TABLE t;'' # [[]]"
    by code_simp
  have m: "trim ''-- +goose Down'' = ''-- +goose Down''" by code_simp
  have mid: "\<forall>x \<in> set [[]]. trim x \<noteq> ''-- +goose Up'' \<and> trim x \<noteq> ''-- +goose Down''
           \<and> (isStatementLine x \<longrightarrow> \<not> endsWith (trim x) '';'')" by code_simp
  have l1: "isStatementLine ''DROP TABLE t;''" by code_simp
  have l2: "endsWith (trim ''DROP TABLE t;'') '';''" by code_simp
  have c: "currentStatement (processLines initialState
      [''-- +goose Up'', ''CREATE TABLE t (id INT)'']) = ''CREATE TABLE t (id INT)'' @ [LF]"
    by code_simp
  have d: "downStatements (parseSqlLines carryOverFile) =
       [''CREATE TABLE t (id INT)'' @ [LF] @ ''DROP TABLE t;'' @ [LF]]"
    by code_simp
  from pending_text_carries_over_down_marker [OF l m mid l1 l2] l m l1 l2 c d
  show ?thesis by blast
qed

section \<open>Properties of the migration source\<close>

lemma getVersion_of_migration_file:
  "isMigrationFile f \<Longrightarrow> getVersionFromFilename f = Inr (takeWhile isDigit f)"
  by (simp add: isMigrationFile_def getVersionFromFilename_def)

lemma loadMigrations_map:
  "\<forall>d \<in> set ds. loadMigration raw d = Inr (f d) \<Longrightarrow> loadMigrations raw ds = Inr (map f ds)"
  by (induction ds) simp_all

lemma loadMigration_fields:
  "loadMigration raw d = Inr m \<Longrightarrow> isMigrationFile (file_name d)
    \<Longrightarrow> filename m = file_name d \<and> version m = takeWhile isDigit (file_name d)"
  by (auto simp: loadMigration_def getVersion_of_migration_file split: sum.splits)

lemma set_sortedFiles:
  "set (sortedFiles dir) = {d \<in> set dir. isMigrationFile (file_name d)}"
  by (auto simp: sortedFiles_def)

lemma getMigrationFiles_sortedFiles:
  "getMigrationFiles raw dir = loadMigrations raw (sortedFiles dir)"
  by (simp add: getMigrationFiles_def sortedFiles_def)

lemma loadMigration_sql:
  "isMigrationFile (file_name d) \<Longrightarrow> endsWith (file_name d) ''.sql'' \<Longrightarrow> file_text d = Some sql
    \<Longrightarrow> loadMigration raw d = Inr (sqlMigration raw d)"
  by (simp add: loadMigration_def getVersion_of_migration_file loadModule_def sqlMigration_def)

text \<open>
  C2, as the claim states it, fails: the text that opens a block after \<open>-- +goose Up\<close> and
  never closes it is parsed to a normal result, and the directory that holds it loads.
\<close>

theorem unterminated_block_parses_counterexample:
  "parseSqlLines unterminatedFile =
     \<lparr>cur_section = SecUp, inStatement = False, currentStatement = [],
      upStatements = [''SELECT 1;'' @ [LF]], downStatements = []\<rparr>
   \<and> map_sum fst (map filename)
        (getMigrationFiles recordStatement [sqlFile ''1_a.sql'' unterminatedFile]) = Inr [''1_a.sql'']"
  by code_simp

text \<open>
  C2, amended.  Parsing raises no error, whatever the text: a directory whose migration
  files are readable SQL files always loads, and the result holds the parsed module of
  each of them; a block that is opened and not closed does not abort the load.
\<close>

theorem sql_files_always_load:
  assumes "\<forall>d \<in> set dir. isMigrationFile (file_name d) \<longrightarrow>
             endsWith (file_name d) ''.sql'' \<and> file_text d \<noteq> None"
  shows "getMigrationFiles raw dir = Inr (map (sqlMigration raw) (sortedFiles dir))"
proof -
  have "\<forall>d \<in> set (sortedFiles dir). loadMigration raw d = Inr (sqlMigration raw d)"
    using assms by (auto simp: set_sortedFiles loadMigration_sql)
  then show ?thesis
    by (simp add: getMigrationFiles_sortedFiles loadMigrations_map)
qed

theorem sql_files_always_load_witness:
  "isMigrationFile ''1_a.sql'' \<and> endsWith ''1_a.sql'' ''.sql''
   \<and> getMigrationFiles recordStatement [sqlFile ''1_a.sql'' unterminatedFile] =
       Inr [\<lparr>version = ''1'', filename = ''1_a.sql'',
             module = parseSqlMigration recordStatement unterminatedFile\<rparr>]"
proof -
  have a: "isMigrationFile ''1_a.sql''" by code_simp
  have b: "endsWith ''1_a.sql'' ''.sql''" by code_simp
  have h: "\<forall>d \<in> set [sqlFile ''1_a.sql'' unterminatedFile :: string list dirent].
      isMigrationFile (file_name d) \<longrightarrow> endsWith (file_name d) ''.sql'' \<and> file_text d \<noteq> None"
    using b by (simp add: sqlFile_def)
  have s: "sortedFiles [sqlFile ''1_a.sql'' unterminatedFile :: string list dirent]
      = [sqlFile ''1_a.sql'' unterminatedFile]"
    using a by (simp add: sortedFiles_def sqlFile_def)
  have v: "takeWhile isDigit ''1_a.sql'' = ''1''" by code_simp
  show ?thesis
    using sql_files_always_load [OF h, of recordStatement] a b s v
    by (simp add: sqlMigration_def sqlFile_def)
qed

text \<open>
  C3, as the claim states it, fails: a directory with the files \<open>1_a.sql\<close> and \<open>1_b.sql\<close>
  loads, and the sequence returned has a definition for each, both of version 1.
\<close>

theorem duplicate_versions_load_counterexample:
  "map_sum fst (map (\<lambda>m. (version m, filename m))) (getMigrationFiles recordStatement duplicateDir)
     = Inr [(''1'', ''1_a.sql''), (''1'', ''1_b.sql'')]"
  by code_simp

text \<open>
  C3, amended.  Loading compares no versions: when every migration file of the directory
  loads by itself, loading returns one definition for each migration file, in ascending
  order of version number, so two files with the same version are both in the sequence.
\<close>

theorem load_keeps_every_file:
  assumes "\<forall>d \<in> set dir. isMigrationFile (file_name d) \<longrightarrow> (\<exists>m. loadMigration raw d = Inr m)"
  shows "\<exists>ms. getMigrationFiles raw dir = Inr ms
           \<and> map filename ms = map file_name (sortedFiles dir)
           \<and> (\<forall>d \<in> set dir. isMigrationFile (file_name d) \<longrightarrow>
                 (\<exists>m \<in> set ms. filename m = file_name d
                     \<and> version m = takeWhile isDigit (file_name d)))"
proof -
  define f where "f = (\<lambda>d. projr (loadMigration raw d))"
  have ld: "\<forall>d \<in> set (sortedFiles dir). loadMigration raw d = Inr (f d)"
    using assms by (auto simp: set_sortedFiles f_def)
  then have res: "getMigrationFiles raw dir = Inr (map f (sortedFiles dir))"
    by (simp add: getMigrationFiles_sortedFiles loadMigrations_map)
  have fields: "\<forall>d \<in> set (sortedFiles dir).
      filename (f d) = file_name d \<and> version (f d) = takeWhile isDigit (file_name d)"
    using ld loadMigration_fields by (fastforce simp: set_sortedFiles)
  have names: "map filename (map f (sortedFiles dir)) = map file_name (sortedFiles dir)"
    using fields by simp
  have both: "\<forall>d \<in> set dir. isMigrationFile (file_name d) \<longrightarrow>
      (\<exists>m \<in> set (map f (sortedFiles dir)). filename m = file_name d
          \<and> version m = takeWhile isDigit (file_name d))"
  proof (intro ballI impI)
    fix d assume "d \<in> set dir" "isMigrationFile (file_name d)"
    then have "d \<in> set (sortedFiles dir)" by (simp add: set_sortedFiles)
    with fields show "\<exists>m \<in> set (map f (sortedFiles dir)). filename m = file_name d
          \<and> version m = takeWhile isDigit (file_name d)"
      by auto
  qed
  from res names both show ?thesis by blast
qed

theorem load_keeps_every_file_witness:
  "map (\<lambda>d. isMigrationFile (file_name d)) mixedDir = [True, True, False, True]
   \<and> map file_name (sortedFiles mixedDir) = [''2_b.sql'', ''02_a.sql'', ''10_c.sql'']
   \<and> map_sum fst (map (\<lambda>m. (version m, filename m))) (getMigrationFiles recordStatement mixedDir)
       = Inr [(''2'', ''2_b.sql''), (''02'', ''02_a.sql''), (''10'', ''10_c.sql'')]"
proof -
  have e: "map (\<lambda>d. isMigrationFile (file_name d)) mixedDir = [True, True, False, True]"
    by code_simp
  have s: "map file_name (sortedFiles mixedDir) = [''2_b.sql'', ''02_a.sql'', ''10_c.sql'']"
    by code_simp
  have h: "\<forall>d \<in> set mixedDir. isMigrationFile (file_name d) \<longrightarrow>
      (\<exists>m. loadMigration recordStatement d = Inr m)"
  proof (intro ballI impI)
    fix d :: "string list dirent"
    assume d: "d \<in> set mixedDir" and m: "isMigrationFile (file_name d)"
    from d have t: "file_text d = Some []" by (auto simp: mixedDir_def sqlFile_def)
    from d m have "endsWith (file_name d) ''.sql''"
      by (auto simp: mixedDir_def sqlFile_def isMigrationFile_def endsWith_def)
    with m t show "\<exists>m. loadMigration recordStatement d = Inr m"
      by (simp add: loadMigration_sql)
  qed
  have c: "map_sum fst (map (\<lambda>m. (version m, filename m)))
      (getMigrationFiles recordStatement mixedDir)
       = Inr [(''2'', ''2_b.sql''), (''02'', ''02_a.sql''), (''10'', ''10_c.sql'')]"
    by code_simp
  from load_keeps_every_file [OF h] e s c show ?thesis by blast
qed

section \<open>Properties of the apply path\<close>

lemma ledgerInsert_ok:
  "ledgerInsert v d = (None, d') \<Longrightarrow>
     d' = d\<lparr>rows := rows d @ [\<lparr>rec_id = nextId d, version_id = bigintText v,
                                  is_applied = 1, tstamp = clock d\<rparr>],
            nextId := Suc (nextId d)\<rparr>"
  by (auto simp: ledgerInsert_def split: if_splits option.splits)

lemma ledgerInsert_rows:
  "set (rows d) \<subseteq> set (rows (snd (ledgerInsert v d)))"
  by (auto simp: ledgerInsert_def split: option.splits)

lemma runUp_ok:
  "runUp m d = (None, d') \<Longrightarrow>
     \<exists>r. rows d' = rows d @ [r] \<and> version_id r = bigintText (version m)"
  by (auto simp: runUp_def logEvents_def split: prod.splits option.splits dest!: ledgerInsert_ok)

lemma applyMigration_ok:
  "applyMigration m d = (None, d') \<Longrightarrow>
     \<exists>r. rows d' = rows d @ [r] \<and> version_id r = bigintText (version m)"
  by (auto simp: applyMigration_def transaction_def logEvents_def
           split: if_splits prod.splits option.splits dest!: runUp_ok)

lemma applyEach_ok:
  "applyEach ms d = (None, d') \<Longrightarrow>
     set (rows d) \<subseteq> set (rows d')
     \<and> (\<forall>m \<in> set ms. \<exists>r \<in> set (rows d'). version_id r = bigintText (version m))"
proof (induction ms arbitrary: d)
  case Nil
  then show ?case by simp
next
  case (Cons m ms)
  from Cons.prems obtain d1 where 1: "applyMigration m d = (None, d1)"
    and 2: "applyEach ms d1 = (None, d')"
    by (auto split: prod.splits option.splits)
  from applyMigration_ok [OF 1] obtain r where
    r: "rows d1 = rows d @ [r]" "version_id r = bigintText (version m)"
    by blast
  from Cons.IH [OF 2] have ih: "set (rows d1) \<subseteq> set (rows d')"
      "\<forall>m \<in> set ms. \<exists>r \<in> set (rows d'). version_id r = bigintText (version m)" by simp_all
  from r ih(1) have "r \<in> set (rows d')" by auto
  with r ih show ?case by auto
qed

lemma applyEach_append:
  "applyEach (xs @ ys) d =
     (case applyEach xs d of (Some e, d') \<Rightarrow> (Some e, d') | (None, d') \<Rightarrow> applyEach ys d')"
  by (induction xs arbitrary: d) (auto split: prod.splits option.splits)

lemma pending_empty_iff:
  "pendingMigrations ms applied = [] \<longleftrightarrow> (\<forall>m \<in> set ms. \<exists>a \<in> set applied. version_id a = version m)"
  by (auto simp: pendingMigrations_def filter_empty_conv)

lemma set_getApplied: "set (getAppliedMigrations d) = set (rows d)"
  by (simp add: getAppliedMigrations_def)

text \<open>
  C6.  A migration with \<open>noTransaction\<close> whose up procedure throws: wherever it stands in
  the batch, the batch ends there with that error, the ledger has the rows it had before
  the migration was tried (no row is inserted for its version), the store is as the
  procedure left it, and the migrations after it are not run.
\<close>

theorem no_transaction_failure_leaves_no_row:
  assumes nt: "noTransaction (module m)"
    and fails: "up (module m) (store d) = (Some e, st')"
    and before: "applyEach pre d0 = (None, d)"
  shows "applyEach (pre @ m # rest) d0 =
           (Some e, logEvents [CallUp (filename m), LogErrorApplying (filename m) e]
                      (d\<lparr>store := st'\<rparr>))
       \<and> rows (snd (applyEach (pre @ m # rest) d0)) = rows d
       \<and> applyMigration m d = applyEach (pre @ m # rest) d0"
proof -
  have a: "applyMigration m d =
      (Some e, logEvents [CallUp (filename m), LogErrorApplying (filename m) e] (d\<lparr>store := st'\<rparr>))"
    using nt fails by (simp add: applyMigration_def runUp_def logEvents_def)
  then have b: "applyEach (m # rest) d = applyMigration m d" by simp
  have c: "applyEach (pre @ m # rest) d0 = applyMigration m d"
    using b before by (simp add: applyEach_append)
  have "rows (snd (applyEach (pre @ m # rest) d0)) = rows d"
    by (simp add: c a logEvents_def)
  with a c show ?thesis by simp
qed

theorem no_transaction_failure_leaves_no_row_witness:
  "noTransaction (module failingMigration)
   \<and> up (module failingMigration) (store afterFirst) = (Some (Error ''boom''), [''A;'', ''partial''])
   \<and> applyEach [statementsMigration ''1'' ''1_a.sql'' [''A;''] [''DA;''] False] freshDb
        = (None, afterFirst)
   \<and> applyEach ([statementsMigration ''1'' ''1_a.sql'' [''A;''] [''DA;''] False] @ failingMigration
         # [statementsMigration ''3'' ''3_c.sql'' [''C;''] [] False]) freshDb
        = (Some (Error ''boom''),
           logEvents [CallUp ''2_b.js'', LogErrorApplying ''2_b.js'' (Error ''boom'')]
             (afterFirst\<lparr>store := [''A;'', ''partial'']\<rparr>))
   \<and> map version_id (rows afterFirst) = [''0'', ''1'']"
proof -
  have nt: "noTransaction (module failingMigration)" by code_simp
  have f: "up (module failingMigration) (store afterFirst) =
      (Some (Error ''boom''), [''A;'', ''partial''])" by code_simp
  have b: "applyEach [statementsMigration ''1'' ''1_a.sql'' [''A;''] [''DA;''] False] freshDb
        = (None, afterFirst)" by code_simp
  have n: "filename failingMigration = ''2_b.js''" by code_simp
  have r: "map version_id (rows afterFirst) = [''0'', ''1'']" by code_simp
  from no_transaction_failure_leaves_no_row [OF nt f b,
      of "[statementsMigration ''3'' ''3_c.sql'' [''C;''] [] False]"] nt f b n r
  show ?thesis by simp
qed

section \<open>Properties of the rollback path\<close>

lemma find_version_Some:
  "find (\<lambda>m. version m = v) migrations = Some m \<Longrightarrow> m \<in> set migrations \<and> version m = v"
  by (auto simp: find_Some_iff in_set_conv_nth)

lemma find_version_None:
  "find (\<lambda>m. version m = v) migrations = None \<longleftrightarrow> (\<forall>m \<in> set migrations. version m \<noteq> v)"
  by (auto simp: find_None_iff)

lemma runDown_keeps:
  "r \<in> set (rows d) \<Longrightarrow> version_id r \<noteq> version m \<Longrightarrow> r \<in> set (rows (snd (runDown m d)))"
  by (auto simp: runDown_def ledgerDelete_def logEvents_def split: option.splits prod.splits)

lemma rollbackMigration_keeps:
  "r \<in> set (rows d) \<Longrightarrow> version_id r \<noteq> version m
    \<Longrightarrow> r \<in> set (rows (snd (rollbackMigration m d)))"
  using runDown_keeps [of r d m]
  by (auto simp: rollbackMigration_def transaction_def logEvents_def
           split: option.splits prod.splits if_splits)

text \<open>A walk deletes only rows whose version is the version of a reversible file that a candidate finds.\<close>

lemma rollbackEach_keeps:
  assumes "r \<in> set (rows d)"
    and "\<forall>b \<in> set cs. \<forall>m'. find (\<lambda>m. version m = version_id b) migrations = Some m'
           \<longrightarrow> irreversible (module m') \<or> version m' \<noteq> version_id r"
  shows "r \<in> set (rows (snd (rollbackEach migrations cs d)))"
  using assms
proof (induction cs arbitrary: d)
  case Nil
  then show ?case by simp
next
  case (Cons b cs)
  show ?case
  proof (cases "find (\<lambda>m. version m = version_id b) migrations")
    case None
    have "r \<in> set (rows (logEvents [LogFileNotFound (version_id b)] d))"
      using Cons.prems(1) by (simp add: logEvents_def)
    from Cons.IH [OF this] Cons.prems(2) None show ?thesis by simp
  next
    case (Some m')
    show ?thesis
    proof (cases "irreversible (module m')")
      case True
      with Some Cons.prems(1) show ?thesis by (simp add: logEvents_def)
    next
      case False
      with Some Cons.prems(2) have ne: "version_id r \<noteq> version m'" by auto
      obtain res d' where rb: "rollbackMigration m' d = (res, d')" by (cases "rollbackMigration m' d")
      from rollbackMigration_keeps [OF Cons.prems(1) ne] rb have in': "r \<in> set (rows d')" by simp
      show ?thesis
      proof (cases res)
        case None
        from Cons.IH [OF in'] Cons.prems(2) have "r \<in> set (rows (snd (rollbackEach migrations cs d')))"
          by simp
        with Some False rb None show ?thesis by simp
      next
        case (Some e)
        with \<open>find (\<lambda>m. version m = version_id b) migrations = Some m'\<close> False rb in'
        show ?thesis by simp
      qed
    qed
  qed
qed

lemma rollbackEach_append:
  assumes "\<forall>b \<in> set pre. \<forall>m'. find (\<lambda>m. version m = version_id b) migrations = Some m'
             \<longrightarrow> \<not> irreversible (module m')"
  shows "rollbackEach migrations (pre @ rest) d =
     (case rollbackEach migrations pre d of
        (Some e, d') \<Rightarrow> (Some e, d')
      | (None, d') \<Rightarrow> rollbackEach migrations rest d')"
  using assms
  by (induction pre arbitrary: d) (auto split: option.splits prod.splits)

text \<open>
  C4.  When the walk reaches a candidate row whose migration file is irreversible, it
  stops there: it prints the notice and does nothing else, so the row is not deleted, no
  down procedure is called for it and the candidates after it are not processed.  On a
  list of candidates with no irreversible file before that row, the walk is the walk
  over the rows before it followed by the notice, and the row is still in the ledger.
\<close>

theorem irreversible_stops_the_walk:
  assumes found: "find (\<lambda>m. version m = version_id a) migrations = Some m"
    and irr: "irreversible (module m)"
    and pre: "\<forall>b \<in> set pre. \<forall>m'. find (\<lambda>m. version m = version_id b) migrations = Some m'
             \<longrightarrow> \<not> irreversible (module m')"
    and row: "a \<in> set (rows d)"
  shows "rollbackEach migrations (a # post) d = (None, logEvents [LogIrreversible (filename m)] d)
       \<and> rollbackEach migrations (pre @ a # post) d =
           (case rollbackEach migrations pre d of
              (Some e, d') \<Rightarrow> (Some e, d')
            | (None, d') \<Rightarrow> (None, logEvents [LogIrreversible (filename m)] d'))
       \<and> a \<in> set (rows (snd (rollbackEach migrations (pre @ a # post) d)))"
proof -
  have stop: "\<And>d'. rollbackEach migrations (a # post) d' =
      (None, logEvents [LogIrreversible (filename m)] d')"
    using found irr by simp
  have walk: "rollbackEach migrations (pre @ a # post) d =
           (case rollbackEach migrations pre d of
              (Some e, d') \<Rightarrow> (Some e, d')
            | (None, d') \<Rightarrow> (None, logEvents [LogIrreversible (filename m)] d'))"
    by (simp add: rollbackEach_append [OF pre] stop split: prod.splits option.splits
             del: rollbackEach.simps)
  have "\<forall>b \<in> set (pre @ a # post). \<forall>m'.
      find (\<lambda>m. version m = version_id b) migrations = Some m'
        \<longrightarrow> irreversible (module m') \<or> version m' \<noteq> version_id a"
  proof (intro ballI allI impI)
    fix b m'
    assume f: "find (\<lambda>m. version m = version_id b) migrations = Some m'"
    show "irreversible (module m') \<or> version m' \<noteq> version_id a"
    proof (cases "version_id b = version_id a")
      case True
      with f found irr show ?thesis by simp
    next
      case False
      with find_version_Some [OF f] show ?thesis by simp
    qed
  qed
  from rollbackEach_keeps [OF row this]
  have "a \<in> set (rows (snd (rollbackEach migrations (pre @ a # post) d)))" .
  with stop walk show ?thesis by simp
qed

theorem irreversible_stops_the_walk_witness:
  "irreversible (module (statementsMigration ''2'' ''2_b.sql'' [''B;''] [''DB;''] True))
   \<and> ledgerRow 3 ''2'' \<in> set (rows threeApplied)
   \<and> rollbackEach savePointMigrations [ledgerRow 4 ''3''] threeApplied =
       (None, \<lparr>store = [''A;'', ''B;'', ''C;'', ''DC;''],
               rows = [ledgerRow 1 ''0'', ledgerRow 2 ''1'', ledgerRow 3 ''2''],
               nextId = 5, clock = 0,
               trace = [CallDown ''3_c.sql'', LogRolledBack ''3_c.sql'']\<rparr>)
   \<and> rollbackEach savePointMigrations
         ([ledgerRow 4 ''3''] @ ledgerRow 3 ''2'' # [ledgerRow 2 ''1'']) threeApplied =
       (None, \<lparr>store = [''A;'', ''B;'', ''C;'', ''DC;''],
               rows = [ledgerRow 1 ''0'', ledgerRow 2 ''1'', ledgerRow 3 ''2''],
               nextId = 5, clock = 0,
               trace = [CallDown ''3_c.sql'', LogRolledBack ''3_c.sql'',
                        LogIrreversible ''2_b.sql'']\<rparr>)"
proof -
  let ?m2 = "statementsMigration ''2'' ''2_b.sql'' [''B;''] [''DB;''] True"
  have found: "find (\<lambda>m. version m = version_id (ledgerRow 3 ''2'')) savePointMigrations = Some ?m2"
    by (simp add: savePointMigrations_def statementsMigration_def ledgerRow_def)
  have irr: "irreversible (module ?m2)" by (simp add: statementsMigration_def)
  have pre: "\<forall>b \<in> set [ledgerRow 4 ''3'']. \<forall>m'.
      find (\<lambda>m. version m = version_id b) savePointMigrations = Some m'
        \<longrightarrow> \<not> irreversible (module m')"
    by (auto simp: savePointMigrations_def statementsMigration_def ledgerRow_def)
  have row: "ledgerRow 3 ''2'' \<in> set (rows threeApplied)" by (simp add: threeApplied_def)
  have w: "rollbackEach savePointMigrations [ledgerRow 4 ''3''] threeApplied =
       (None, \<lparr>store = [''A;'', ''B;'', ''C;'', ''DC;''],
               rows = [ledgerRow 1 ''0'', ledgerRow 2 ''1'', ledgerRow 3 ''2''],
               nextId = 5, clock = 0,
               trace = [CallDown ''3_c.sql'', LogRolledBack ''3_c.sql'']\<rparr>)"
    by code_simp
  have n: "filename ?m2 = ''2_b.sql''" by (simp add: statementsMigration_def)
  from irreversible_stops_the_walk [OF found irr pre row, of "[ledgerRow 2 ''1'']"] irr row w n
  show ?thesis by (simp add: logEvents_def)
qed

section \<open>The rows an operation keeps\<close>

lemma loadMigration_filename:
  "loadMigration raw d = Inr m \<Longrightarrow> filename m = file_name d"
  by (auto simp: loadMigration_def split: sum.splits)

lemma loadMigrations_filenames:
  "loadMigrations raw ds = Inr ms \<Longrightarrow> map filename ms = map file_name ds"
  by (induction ds arbitrary: ms) (auto split: sum.splits dest: loadMigration_filename)

lemma loadMigrations_origin:
  "loadMigrations raw ds = Inr ms \<Longrightarrow> \<forall>m \<in> set ms. \<exists>d \<in> set ds. loadMigration raw d = Inr m"
  by (induction ds arbitrary: ms) (auto split: sum.splits)

lemma getMigrationFiles_versions:
  assumes "getMigrationFiles raw dir = Inr ms" and "m \<in> set ms"
  shows "\<exists>x \<in> set dir. isMigrationFile (file_name x) \<and> version m = takeWhile isDigit (file_name x)"
proof -
  from assms loadMigrations_origin [of raw "sortedFiles dir" ms]
  obtain x where x: "x \<in> set (sortedFiles dir)" "loadMigration raw x = Inr m"
    by (auto simp: getMigrationFiles_sortedFiles)
  then have "isMigrationFile (file_name x)" "x \<in> set dir" by (simp_all add: set_sortedFiles)
  with x loadMigration_fields [of raw x m] show ?thesis by blast
qed

lemma getMigrationFiles_sorted:
  "getMigrationFiles raw dir = Inr ms \<Longrightarrow> sorted (map (\<lambda>m. fileVersionNumber (filename m)) ms)"
proof -
  assume "getMigrationFiles raw dir = Inr ms"
  then have "map filename ms = map file_name (sortedFiles dir)"
    by (simp add: getMigrationFiles_sortedFiles loadMigrations_filenames)
  then have "map fileVersionNumber (map filename ms) =
      map fileVersionNumber (map file_name (sortedFiles dir))"
    by (rule arg_cong)
  then have "map (\<lambda>m. fileVersionNumber (filename m)) ms =
      map (\<lambda>d. fileVersionNumber (file_name d)) (sortedFiles dir)"
    by (simp add: o_def)
  then show ?thesis by (simp add: sortedFiles_def)
qed

lemma runUp_rows: "set (rows d) \<subseteq> set (rows (snd (runUp m d)))"
  using ledgerInsert_rows [of "logEvents es (d\<lparr>store := st\<rparr>)" "version m" for es st]
  by (auto simp: runUp_def logEvents_def split: prod.splits option.splits)

lemma applyMigration_rows: "set (rows d) \<subseteq> set (rows (snd (applyMigration m d)))"
  using runUp_rows [of d m]
  by (auto simp: applyMigration_def transaction_def logEvents_def
           split: prod.splits option.splits if_splits)

lemma applyEach_rows: "set (rows d) \<subseteq> set (rows (snd (applyEach ms d)))"
proof (induction ms arbitrary: d)
  case Nil
  then show ?case by simp
next
  case (Cons m ms)
  obtain res d' where a: "applyMigration m d = (res, d')" by (cases "applyMigration m d")
  with applyMigration_rows [of d m] have s: "set (rows d) \<subseteq> set (rows d')" by simp
  show ?case
  proof (cases res)
    case None
    with a Cons.IH [of d'] s show ?thesis by auto
  next
    case (Some e)
    with a s show ?thesis by simp
  qed
qed

lemma applyMigrations_rows: "set (rows d) \<subseteq> set (rows (snd (applyMigrations ms d)))"
  using applyEach_rows [of "logEvents [LogApplying (length ms)] d" ms]
  by (simp add: applyMigrations_def logEvents_def)

lemma upMigration_rows: "set (rows d) \<subseteq> set (rows (snd (upMigration raw dir target d)))"
  using applyMigrations_rows [of d]
  by (auto simp: upMigration_def logEvents_def split: sum.splits prod.splits)

lemma upByOneMigration_rows: "set (rows d) \<subseteq> set (rows (snd (upByOneMigration raw dir d)))"
  using applyMigrations_rows [of d]
  by (auto simp: upByOneMigration_def logEvents_def split: sum.splits prod.splits list.splits)

lemma statusMigration_rows: "rows (snd (statusMigration raw dir d)) = rows d"
  by (auto simp: statusMigration_def logEvents_def split: sum.splits prod.splits)

text \<open>A rollback deletes no row whose version is the version of no migration file.\<close>

lemma downToMigration_unfold:
  "getMigrationFiles raw dir = Inr migrations \<Longrightarrow>
   migrationsToRollback (getAppliedMigrations d) target = Inr cs \<Longrightarrow>
   downToMigration raw dir target d =
     (if getAppliedMigrations d = [] \<or> cs = [] then (None, logEvents [LogNoRollback] d)
      else rollbackEach migrations cs
             (logEvents [LogRollingBack (length cs) (version_id (last cs))] d))"
  by (simp add: downToMigration_def Let_def)

lemma downToMigration_keeps:
  fixes d :: "'s db"
  assumes "r \<in> set (rows d)"
    and "\<forall>x \<in> set dir. isMigrationFile (file_name x) \<longrightarrow> takeWhile isDigit (file_name x) \<noteq> version_id r"
  shows "r \<in> set (rows (snd (downToMigration raw dir target d)))"
proof (cases "getMigrationFiles raw dir")
  case (Inl fe)
  with assms(1) show ?thesis
    by (simp add: downToMigration_def logEvents_def split: prod.splits)
next
  case (Inr migrations)
  have nov: "\<forall>m \<in> set migrations. version m \<noteq> version_id r"
    using getMigrationFiles_versions [OF Inr] assms(2) by fastforce
  have walk: "r \<in> set (rows (snd (rollbackEach migrations cs d')))"
    if "r \<in> set (rows d')" for cs and d' :: "'s db"
    using that
  proof (rule rollbackEach_keeps)
    show "\<forall>b \<in> set cs. \<forall>m'. find (\<lambda>m. version m = version_id b) migrations = Some m'
         \<longrightarrow> irreversible (module m') \<or> version m' \<noteq> version_id r"
      using nov find_version_Some by blast
  qed
  have logged: "r \<in> set (rows (logEvents es d))" for es
    using assms(1) by (simp add: logEvents_def)
  show ?thesis
  proof (cases "migrationsToRollback (getAppliedMigrations d) target")
    case (Inl e)
    have "downToMigration raw dir target d =
        (if getAppliedMigrations d = [] then (None, logEvents [LogNoRollback] d) else (Some e, d))"
      using Inr Inl by (simp add: downToMigration_def Let_def)
    with assms(1) logged show ?thesis by simp
  next
    case cs: (Inr cs)
    show ?thesis
      unfolding downToMigration_unfold [OF Inr cs]
      using walk [OF logged] logged by simp
  qed
qed

text \<open>
  C5, as the claim states it, fails: with a migration file of version 0 in the directory,
  \<open>downToMigration\<close> without a target on the freshly seeded ledger deletes the baseline
  row; so does a rollback to a target below 0.
\<close>

theorem baseline_row_deleted_counterexample:
  "hasBaseline freshDb
   \<and> rows (snd (downToMigration recordStatement zeroDir None freshDb)) = []
   \<and> \<not> hasBaseline (snd (downToMigration recordStatement zeroDir None freshDb))
   \<and> \<not> hasBaseline (snd (downToMigration recordStatement zeroDir (Some ''-1'') freshDb))"
  by code_simp

text \<open>
  C5, amended.  \<open>initializeDb\<close> seeds the row of version 0 when it creates the table, and
  in a directory with no migration file of version \<open>0\<close> every operation keeps it:
  \<open>upMigration\<close> and \<open>downToMigration\<close> with any target or none, \<open>upByOneMigration\<close>
  and \<open>statusMigration\<close>.
\<close>

theorem baseline_row_is_kept:
  assumes base: "hasBaseline d"
    and nozero: "\<forall>x \<in> set dir. isMigrationFile (file_name x) \<longrightarrow>
                   takeWhile isDigit (file_name x) \<noteq> ''0''"
  shows "hasBaseline (snd (upMigration raw dir target d))
       \<and> hasBaseline (snd (upByOneMigration raw dir d))
       \<and> hasBaseline (snd (downToMigration raw dir target d))
       \<and> hasBaseline (snd (statusMigration raw dir d))
       \<and> hasBaseline (initializeDb False newDb)"
proof -
  from base obtain r where r: "r \<in> set (rows d)" "version_id r = ''0''"
    by (auto simp: hasBaseline_def)
  have "r \<in> set (rows (snd (upMigration raw dir target d)))"
    using r(1) upMigration_rows by blast
  then have 1: "hasBaseline (snd (upMigration raw dir target d))"
    using r(2) by (auto simp: hasBaseline_def)
  have "r \<in> set (rows (snd (upByOneMigration raw dir d)))"
    using r(1) upByOneMigration_rows by blast
  then have 2: "hasBaseline (snd (upByOneMigration raw dir d))"
    using r(2) by (auto simp: hasBaseline_def)
  have "r \<in> set (rows (snd (downToMigration raw dir target d)))"
    using r nozero by (intro downToMigration_keeps) simp_all
  then have 3: "hasBaseline (snd (downToMigration raw dir target d))"
    using r(2) by (auto simp: hasBaseline_def)
  have 4: "hasBaseline (snd (statusMigration raw dir d))"
    using base by (simp add: hasBaseline_def statusMigration_rows)
  have 5: "hasBaseline (initializeDb False newDb)"
    by (simp add: hasBaseline_def initializeDb_def ledgerInsert_def numeral_in_def
          digitValue_def bigintText_def)
  from 1 2 3 4 5 show ?thesis by simp
qed

theorem baseline_row_is_kept_witness:
  "hasBaseline appliedDb
   \<and> map (\<lambda>x. takeWhile isDigit (file_name x)) threeDir = [''3'', ''1'', ''2'']
   \<and> map version_id (rows (snd (downToMigration recordStatement threeDir (Some ''0'') appliedDb)))
       = [''0'']
   \<and> hasBaseline (snd (downToMigration recordStatement threeDir (Some ''0'') appliedDb))
   \<and> hasBaseline (snd (upMigration recordStatement threeDir (Some ''0'') appliedDb))
   \<and> hasBaseline (initializeDb False emptyDb)"
proof -
  have b: "hasBaseline appliedDb" by code_simp
  have v: "map (\<lambda>x. takeWhile isDigit (file_name x)) threeDir = [''3'', ''1'', ''2'']"
    by code_simp
  have n: "\<forall>x \<in> set threeDir. isMigrationFile (file_name x) \<longrightarrow>
      takeWhile isDigit (file_name x) \<noteq> ''0''"
    by code_simp
  have w: "map version_id
      (rows (snd (downToMigration recordStatement threeDir (Some ''0'') appliedDb))) = [''0'']"
    by code_simp
  from baseline_row_is_kept [OF b n, where raw = recordStatement and target = "Some ''0''"
      and newDb = emptyDb] b v w
  show ?thesis by simp
qed

section \<open>Membership and order of versions\<close>

text \<open>
  C10.  A migration is pending exactly when no row of the ledger has the same version
  string, and the rollback looks a row up by the same equality of strings: a row with no
  file of the same string is reported and skipped.  The order of the loaded migrations
  and of the rollback candidates is the order of the numbers the strings denote.  So the
  file version \<open>07\<close> and the ledger version \<open>7\<close>, the same number, do not match.
\<close>

theorem membership_is_string_equality:
  "(m \<in> set (pendingMigrations migrations applied) \<longleftrightarrow>
      m \<in> set migrations \<and> (\<forall>a \<in> set applied. version_id a \<noteq> version m))
   \<and> ((\<forall>m \<in> set migrations. version m \<noteq> version_id a) \<longrightarrow>
        rollbackEach migrations (a # rest) d =
          rollbackEach migrations rest (logEvents [LogFileNotFound (version_id a)] d))
   \<and> (case getMigrationFiles raw dir of
         Inl _ \<Rightarrow> True
       | Inr ms \<Rightarrow> sorted (map (\<lambda>m. fileVersionNumber (filename m)) ms))
   \<and> (sortedAppliedMigrations applied = Inr cs \<longrightarrow> sorted (map (\<lambda>a. - versionNumber a) cs))"
proof -
  have 1: "m \<in> set (pendingMigrations migrations applied) \<longleftrightarrow>
      m \<in> set migrations \<and> (\<forall>a \<in> set applied. version_id a \<noteq> version m)"
    by (auto simp: pendingMigrations_def)
  have 2: "(\<forall>m \<in> set migrations. version m \<noteq> version_id a) \<longrightarrow>
        rollbackEach migrations (a # rest) d =
          rollbackEach migrations rest (logEvents [LogFileNotFound (version_id a)] d)"
    by (simp add: find_version_None [symmetric])
  have 3: "case getMigrationFiles raw dir of
         Inl _ \<Rightarrow> True
       | Inr ms \<Rightarrow> sorted (map (\<lambda>m. fileVersionNumber (filename m)) ms)"
    by (simp add: getMigrationFiles_sorted split: sum.splits)
  have 4: "sortedAppliedMigrations applied = Inr cs \<longrightarrow> sorted (map (\<lambda>a. - versionNumber a) cs)"
    by (auto simp: sortedAppliedMigrations_def split: if_splits)
  from 1 2 3 4 show ?thesis by blast
qed

theorem membership_is_string_equality_witness:
  "BigInt ''07'' = BigInt ''7''
   \<and> version leadingZeroMigration = ''07''
   \<and> leadingZeroMigration \<in> set (pendingMigrations [leadingZeroMigration]
         [ledgerRow 1 ''0'', ledgerRow 2 ''7''])
   \<and> rollbackEach [leadingZeroMigration] (ledgerRow 2 ''7'' # []) emptyDb =
       (None, logEvents [LogFileNotFound ''7''] emptyDb)
   \<and> map_sum fst (map (\<lambda>m. fileVersionNumber (filename m)))
         (getMigrationFiles recordStatement mixedDir) = Inr [2, 2, 10]
   \<and> sortedAppliedMigrations outOfOrderLedger =
        Inr [ledgerRow 3 ''3'', ledgerRow 4 ''2'', ledgerRow 2 ''1'', ledgerRow 1 ''0'']
   \<and> sorted (map (\<lambda>a. - versionNumber a)
        [ledgerRow 3 ''3'', ledgerRow 4 ''2'', ledgerRow 2 ''1'', ledgerRow 1 ''0''])"
proof -
  have n: "BigInt ''07'' = BigInt ''7''" by code_simp
  have v: "version leadingZeroMigration = ''07''"
    by (simp add: leadingZeroMigration_def statementsMigration_def)
  have nf: "\<forall>m \<in> set [leadingZeroMigration]. version m \<noteq> version_id (ledgerRow 2 ''7'')"
    by (simp add: v ledgerRow_def)
  have np: "\<forall>a \<in> set [ledgerRow 1 ''0'', ledgerRow 2 ''7'']. version_id a \<noteq> version leadingZeroMigration"
    by (simp add: v ledgerRow_def)
  have g: "map_sum fst (map (\<lambda>m. fileVersionNumber (filename m)))
         (getMigrationFiles recordStatement mixedDir) = Inr [2, 2, 10]"
    by code_simp
  have s: "sortedAppliedMigrations outOfOrderLedger =
        Inr [ledgerRow 3 ''3'', ledgerRow 4 ''2'', ledgerRow 2 ''1'', ledgerRow 1 ''0'']"
    by code_simp
  have r: "rollbackEach [leadingZeroMigration] [] (logEvents [LogFileNotFound ''7''] emptyDb)
      = (None, logEvents [LogFileNotFound ''7''] emptyDb)"
    by simp
  have i: "version_id (ledgerRow 2 ''7'') = ''7''" by (simp add: ledgerRow_def)
  from membership_is_string_equality [of leadingZeroMigration "[leadingZeroMigration]"
      "[ledgerRow 1 ''0'', ledgerRow 2 ''7'']" "ledgerRow 2 ''7''" "[]" emptyDb
      recordStatement mixedDir]
    membership_is_string_equality [of leadingZeroMigration "[leadingZeroMigration]"
      outOfOrderLedger "ledgerRow 2 ''7''" "[]" emptyDb recordStatement mixedDir
      "[ledgerRow 3 ''3'', ledgerRow 4 ''2'', ledgerRow 2 ''1'', ledgerRow 1 ''0'']"]
    n v nf np g s r i
  show ?thesis by simp
qed

section \<open>The candidates of a rollback\<close>

lemma sortedAppliedMigrations_readable:
  "\<forall>a \<in> set applied. BigInt (version_id a) \<noteq> None \<Longrightarrow>
     sortedAppliedMigrations applied = Inr (sort_key (\<lambda>a. - versionNumber a) applied)"
  by (auto simp: sortedAppliedMigrations_def)

lemma descending_iff:
  "sorted (map (\<lambda>a. - versionNumber a) xs) \<longleftrightarrow>
     sorted_wrt (\<lambda>x y. versionNumber x \<ge> versionNumber y) xs"
  by (simp add: sorted_map)

lemma candidates_without_target:
  assumes "\<forall>a \<in> set applied. BigInt (version_id a) \<noteq> None" and "applied \<noteq> []"
  shows "\<exists>a. migrationsToRollback applied None = Inr [a] \<and> a \<in> set applied
           \<and> (\<forall>b \<in> set applied. versionNumber b \<le> versionNumber a)"
proof -
  define s where "s = sort_key (\<lambda>a. - versionNumber a) applied"
  have set_s: "set s = set applied" by (simp add: s_def)
  with assms(2) obtain a rest where s: "s = a # rest" by (cases s) auto
  have "sorted (map (\<lambda>a. - versionNumber a) s)" unfolding s_def by (rule sorted_sort_key)
  with s have "\<forall>b \<in> set s. versionNumber b \<le> versionNumber a" by auto
  moreover have "migrationsToRollback applied None = Inr [a]"
    using assms(1) s by (simp add: migrationsToRollback_def sortedAppliedMigrations_readable
        s_def [symmetric])
  moreover have "a \<in> set applied" using s set_s by auto
  ultimately show ?thesis using set_s by auto
qed

lemma candidates_with_target:
  assumes "\<forall>a \<in> set applied. BigInt (version_id a) \<noteq> None" and "BigInt v = Some t"
  shows "migrationsToRollback applied (Some v) =
     Inr (filter (\<lambda>a. versionNumber a > t) (sort_key (\<lambda>a. - versionNumber a) applied))"
proof -
  have "find (\<lambda>a. BigInt (version_id a) = None) (sort_key (\<lambda>a. - versionNumber a) applied) = None"
    using assms(1) by (simp add: find_None_iff)
  with assms show ?thesis
    by (simp add: migrationsToRollback_def sortedAppliedMigrations_readable)
qed

text \<open>
  C1, as the claim states it, fails: on a ledger where version 3 was inserted before
  version 2, the candidate without a target is the row of version 3, not the row
  inserted last, and the candidates above version 1 are walked 3 first, then 2; a
  rollback without a target removes the row of version 3.
\<close>

theorem candidates_by_sequence_counterexample:
  "migrationsToRollback (getAppliedMigrations outOfOrderDb) None = Inr [ledgerRow 3 ''3'']
   \<and> candidatesBySequence (getAppliedMigrations outOfOrderDb) None = [ledgerRow 4 ''2'']
   \<and> migrationsToRollback (getAppliedMigrations outOfOrderDb) (Some ''1'')
       = Inr [ledgerRow 3 ''3'', ledgerRow 4 ''2'']
   \<and> candidatesBySequence (getAppliedMigrations outOfOrderDb) (Some ''1'')
       = [ledgerRow 4 ''2'', ledgerRow 3 ''3'']
   \<and> map version_id (rows (snd (downToMigration recordStatement threeDir None outOfOrderDb)))
       = [''0'', ''1'', ''2'']"
  by code_simp

text \<open>
  C1, amended.  On a ledger that is not empty and whose versions are numerals, the
  rollback walks its candidates in descending order of version number, rows of equal
  number in ascending order of \<open>id\<close>: without a target the single candidate is a row
  of the greatest version number; with a target the candidates are the rows with a
  greater version number, the greatest first.  The order of insertion plays no other part.
\<close>

theorem rollback_candidates_by_version:
  assumes readable: "\<forall>a \<in> set (rows d). BigInt (version_id a) \<noteq> None"
    and nonempty: "rows d \<noteq> []"
    and tgt: "BigInt v = Some t"
  shows "(\<exists>a. migrationsToRollback (getAppliedMigrations d) None = Inr [a]
            \<and> a \<in> set (rows d) \<and> (\<forall>b \<in> set (rows d). versionNumber b \<le> versionNumber a)
            \<and> (case getMigrationFiles raw dir of
                  Inl _ \<Rightarrow> True
                | Inr migrations \<Rightarrow>
                    downToMigration raw dir None d =
                      rollbackEach migrations [a] (logEvents [LogRollingBack 1 (version_id a)] d)))
       \<and> (\<exists>cs. migrationsToRollback (getAppliedMigrations d) (Some v) = Inr cs
            \<and> sorted_wrt (\<lambda>x y. versionNumber x \<ge> versionNumber y) cs
            \<and> mset cs = mset (filter (\<lambda>a. versionNumber a > t) (rows d))
            \<and> cs = sort_key (\<lambda>a. - versionNumber a)
                     (filter (\<lambda>a. versionNumber a > t) (getAppliedMigrations d))
            \<and> (case getMigrationFiles raw dir of
                  Inl _ \<Rightarrow> True
                | Inr migrations \<Rightarrow>
                    downToMigration raw dir (Some v) d =
                      (if cs = [] then (None, logEvents [LogNoRollback] d)
                       else rollbackEach migrations cs
                              (logEvents [LogRollingBack (length cs) (version_id (last cs))] d))))"
proof -
  define applied where "applied = getAppliedMigrations d"
  have set_applied: "set applied = set (rows d)" by (simp add: applied_def set_getApplied)
  have ne: "applied \<noteq> []" using nonempty set_applied by (metis set_empty)
  have rd: "\<forall>a \<in> set applied. BigInt (version_id a) \<noteq> None" using readable set_applied by simp
  from candidates_without_target [OF rd ne] obtain a where
    a: "migrationsToRollback applied None = Inr [a]" "a \<in> set applied"
       "\<forall>b \<in> set applied. versionNumber b \<le> versionNumber a" by blast
  have walk1: "case getMigrationFiles raw dir of
                  Inl _ \<Rightarrow> True
                | Inr migrations \<Rightarrow>
                    downToMigration raw dir None d =
                      rollbackEach migrations [a] (logEvents [LogRollingBack 1 (version_id a)] d)"
    using a(1) ne by (simp add: downToMigration_unfold applied_def split: sum.splits)
  define cs where "cs = filter (\<lambda>a. versionNumber a > t) (sort_key (\<lambda>a. - versionNumber a) applied)"
  have c1: "migrationsToRollback applied (Some v) = Inr cs"
    unfolding cs_def by (rule candidates_with_target [OF rd tgt])
  have "sorted (map (\<lambda>a. - versionNumber a) cs)"
    unfolding cs_def by (rule sorted_filter) (rule sorted_sort_key)
  then have c2: "sorted_wrt (\<lambda>x y. versionNumber x \<ge> versionNumber y) cs"
    by (simp add: descending_iff)
  have c3: "mset cs = mset (filter (\<lambda>a. versionNumber a > t) (rows d))"
    by (simp add: cs_def applied_def getAppliedMigrations_def)
  have c4: "cs = sort_key (\<lambda>a. - versionNumber a) (filter (\<lambda>a. versionNumber a > t) applied)"
    by (simp add: cs_def filter_sort)
  have walk2: "case getMigrationFiles raw dir of
                  Inl _ \<Rightarrow> True
                | Inr migrations \<Rightarrow>
                    downToMigration raw dir (Some v) d =
                      (if cs = [] then (None, logEvents [LogNoRollback] d)
                       else rollbackEach migrations cs
                              (logEvents [LogRollingBack (length cs) (version_id (last cs))] d))"
    using c1 ne by (simp add: downToMigration_unfold applied_def split: sum.splits)
  from a walk1 c1 c2 c3 c4 walk2 show ?thesis
    unfolding applied_def [symmetric] set_applied [symmetric] by blast
qed

theorem rollback_candidates_by_version_witness:
  "BigInt ''1'' = Some 1
   \<and> map (\<lambda>a. BigInt (version_id a)) (rows outOfOrderDb) = [Some 0, Some 1, Some 3, Some 2]
   \<and> migrationsToRollback (getAppliedMigrations outOfOrderDb) None = Inr [ledgerRow 3 ''3'']
   \<and> migrationsToRollback (getAppliedMigrations outOfOrderDb) (Some ''1'')
       = Inr [ledgerRow 3 ''3'', ledgerRow 4 ''2'']
   \<and> sorted_wrt (\<lambda>x y. versionNumber x \<ge> versionNumber y) [ledgerRow 3 ''3'', ledgerRow 4 ''2'']"
proof -
  have t: "BigInt ''1'' = Some 1" by code_simp
  have m: "map (\<lambda>a. BigInt (version_id a)) (rows outOfOrderDb) = [Some 0, Some 1, Some 3, Some 2]"
    by code_simp
  have rd: "\<forall>a \<in> set (rows outOfOrderDb). BigInt (version_id a) \<noteq> None"
    by code_simp
  have ne: "rows outOfOrderDb \<noteq> []" by code_simp
  have n: "migrationsToRollback (getAppliedMigrations outOfOrderDb) None = Inr [ledgerRow 3 ''3'']"
    by code_simp
  have s: "migrationsToRollback (getAppliedMigrations outOfOrderDb) (Some ''1'')
       = Inr [ledgerRow 3 ''3'', ledgerRow 4 ''2'']"
    by code_simp
  from rollback_candidates_by_version [OF rd ne t, of recordStatement threeDir]
  obtain cs where c: "migrationsToRollback (getAppliedMigrations outOfOrderDb) (Some ''1'') = Inr cs"
    "sorted_wrt (\<lambda>x y. versionNumber x \<ge> versionNumber y) cs"
    by blast
  from c(1) s have "cs = [ledgerRow 3 ''3'', ledgerRow 4 ''2'']" by simp
  with c(2) have "sorted_wrt (\<lambda>x y. versionNumber x \<ge> versionNumber y)
      [ledgerRow 3 ''3'', ledgerRow 4 ''2'']" by simp
  with t m n s show ?thesis by blast
qed

section \<open>Running up twice\<close>

lemma bigintText_unchanged:
  "v \<noteq> [] \<Longrightarrow> \<not> leadingZero v \<Longrightarrow> bigintText v = v"
  by (cases v rule: list.exhaust [case_names Nil Cons])
     (auto simp: bigintText_def leadingZero_def split: list.splits)

lemma migration_file_version_nonempty:
  "isMigrationFile f \<Longrightarrow> takeWhile isDigit f \<noteq> []"
  by (simp add: isMigrationFile_def digitsPrefixed_def)

text \<open>
  C8, as the claim states it, fails in two ways.  With the file \<open>07_g.sql\<close> the first run
  returns without an error and the ledger reads back version \<open>7\<close>; the string \<open>07\<close> is
  not in it, so the second run finds the file pending, calls its up procedure again and
  ends with the error of the duplicate row.  With a file whose up procedure throws, the
  first run ends with that error, and the second run calls the procedure again and ends
  with the same error.
\<close>

theorem second_up_runs_again_counterexample:
  "upMigration recordStatement leadingZeroDir None freshDb = (None, leadingZeroApplied)
   \<and> map version_id (rows leadingZeroApplied) = [''0'', ''7'']
   \<and> fst (upMigration recordStatement leadingZeroDir None leadingZeroApplied)
       = Some (DbError ''duplicate version_id 7'')
   \<and> trace (snd (upMigration recordStatement leadingZeroDir None leadingZeroApplied))
       = trace leadingZeroApplied @
           [LogApplying 1, CallUp ''07_g.sql'',
            LogErrorApplying ''07_g.sql'' (DbError ''duplicate version_id 7'')]
   \<and> fst (upMigration recordStatement throwingDir None freshDb) = Some (Error ''boom'')
   \<and> fst (upMigration recordStatement throwingDir None throwingFailed) = Some (Error ''boom'')
   \<and> trace (snd (upMigration recordStatement throwingDir None throwingFailed))
       = trace throwingFailed @
           [LogApplying 1, CallUp ''2_b.js'', LogErrorApplying ''2_b.js'' (Error ''boom'')]"
  by code_simp

text \<open>
  C8, amended.  In a directory where no migration file writes its version with a leading
  zero: when a run of \<open>upMigration\<close> with no target version returns without an error, a
  second run on the same directory and the database the first one left finds no pending
  migration: it prints that there is none, calls no procedure, changes neither the
  store nor the ledger, and returns without an error.
\<close>

theorem second_up_is_a_no_op:
  assumes first: "upMigration raw dir None d = (None, d1)"
    and plain: "\<forall>x \<in> set dir. isMigrationFile (file_name x) \<longrightarrow>
                  \<not> leadingZero (takeWhile isDigit (file_name x))"
  shows "upMigration raw dir None d1 = (None, logEvents [LogNoPending] d1)
       \<and> (\<exists>ms. getMigrationFiles raw dir = Inr ms
             \<and> pendingMigrations ms (getAppliedMigrations d1) = [])"
proof (cases "getMigrationFiles raw dir")
  case (Inl fe)
  with first show ?thesis by (simp add: upMigration_def split: prod.splits)
next
  case (Inr ms)
  have stored: "bigintText (version m) = version m" if "m \<in> set ms" for m
  proof -
    from getMigrationFiles_versions [OF Inr that] obtain x where
      x: "x \<in> set dir" "isMigrationFile (file_name x)"
         "version m = takeWhile isDigit (file_name x)" by blast
    with plain have "\<not> leadingZero (version m)" by simp
    moreover have "version m \<noteq> []" using x by (simp add: migration_file_version_nonempty)
    ultimately show ?thesis by (rule bigintText_unchanged [rotated])
  qed
  define pending where "pending = pendingMigrations ms (getAppliedMigrations d)"
  have sub_ms: "set pending \<subseteq> set ms" by (auto simp: pending_def pendingMigrations_def)
  have all: "\<forall>m \<in> set ms. \<exists>a \<in> set (rows d1). version_id a = version m"
  proof (cases "pending = []")
    case True
    with first Inr have "d1 = logEvents [LogNoPending] d"
      by (simp add: upMigration_def upToVersion_def pending_def)
    moreover from True have "\<forall>m \<in> set ms. \<exists>a \<in> set (rows d). version_id a = version m"
      by (simp add: pending_def pending_empty_iff set_getApplied)
    ultimately show ?thesis by (simp add: logEvents_def)
  next
    case False
    with first Inr
    have "applyEach pending (logEvents [LogApplying (length pending)] d) = (None, d1)"
      by (simp add: upMigration_def upToVersion_def pending_def applyMigrations_def)
    from applyEach_ok [OF this]
    have sub: "set (rows d) \<subseteq> set (rows d1)"
      and new: "\<forall>m \<in> set pending. \<exists>r \<in> set (rows d1). version_id r = bigintText (version m)"
      by (simp_all add: logEvents_def)
    show ?thesis
    proof
      fix m assume m: "m \<in> set ms"
      show "\<exists>a \<in> set (rows d1). version_id a = version m"
      proof (cases "m \<in> set pending")
        case True
        with new obtain r where "r \<in> set (rows d1)" "version_id r = bigintText (version m)"
          by blast
        with stored [OF m] show ?thesis by auto
      next
        case False
        with m have "\<exists>a \<in> set (rows d). version_id a = version m"
          by (auto simp: pending_def pendingMigrations_def set_getApplied)
        with sub show ?thesis by blast
      qed
    qed
  qed
  then have p: "pendingMigrations ms (getAppliedMigrations d1) = []"
    by (simp add: pending_empty_iff set_getApplied)
  with Inr show ?thesis
    by (simp add: upMigration_def upToVersion_def)
qed

theorem second_up_is_a_no_op_witness:
  "upMigration recordStatement threeDir None freshDb = (None, appliedDb)
   \<and> map (\<lambda>x. leadingZero (takeWhile isDigit (file_name x))) threeDir = [False, False, False]
   \<and> map version_id (rows appliedDb) = [''0'', ''1'', ''2'', ''3'']
   \<and> upMigration recordStatement threeDir None appliedDb = (None, logEvents [LogNoPending] appliedDb)"
proof -
  have h: "upMigration recordStatement threeDir None freshDb = (None, appliedDb)"
    by code_simp
  have z: "map (\<lambda>x. leadingZero (takeWhile isDigit (file_name x))) threeDir
      = [False, False, False]"
    by code_simp
  have p: "\<forall>x \<in> set threeDir. isMigrationFile (file_name x) \<longrightarrow>
      \<not> leadingZero (takeWhile isDigit (file_name x))"
    by code_simp
  have r: "map version_id (rows appliedDb) = [''0'', ''1'', ''2'', ''3'']"
    by code_simp
  from second_up_is_a_no_op [OF h p] h z r show ?thesis by simp
qed

end
